theory Spec2Isabelle
  imports Complex_Main "HOL-Library.Word"
begin

section \<open>Data model\<close>

type_synonym hash = "256 word"
type_synonym u64 = "64 word"
type_synonym byte = "8 word"
type_synonym address = "160 word"

text \<open>
  The fields of \<open>types.Header\<close> that forkchoice.go and genesis.go read or write.
  \<open>Number\<close> is a big integer in the source that both files only read through
  \<open>Uint64()\<close> or build with \<open>SetUint64\<close>, so it is kept as the 64-bit value;
  \<open>oldH.Number.Uint64()-1\<close> is then the wrapping subtraction of the word type.
  Pointer fields that may be nil are options; \<open>Difficulty\<close> is never left nil by
  \<open>GenesisToBlock\<close>.
\<close>

record header =
  ParentHash :: hash
  Number :: u64
  Time :: u64
  Extra :: "byte list"
  Root :: hash
  Nonce :: u64
  GasLimit :: u64
  GasUsed :: u64
  BaseFee :: "int option"
  Difficulty :: int
  MixDigest :: hash
  Coinbase :: address
  WithdrawalsHash :: "hash option"
  ExcessBlobGas :: "u64 option"
  BlobGasUsed :: "u64 option"

text \<open>Values returned as \<open>error\<close> by forkchoice.go.\<close>

datatype error =
  MissingTd           \<comment> \<open>\<open>errors.New("missing td")\<close>\<close>
| InvalidOldHChain    \<comment> \<open>\<open>fmt.Errorf("invalid oldH chain")\<close>\<close>
| InvalidNewHChain    \<comment> \<open>\<open>fmt.Errorf("invalid newH chain")\<close>\<close>

text \<open>A run-time panic ends the call without a return value.\<close>

datatype panic =
  NilDereference    \<comment> \<open>a field of a nil pointer is read\<close>
| PanicError        \<comment> \<open>\<open>panic(err)\<close>\<close>

text \<open>
  Modelled from the spec: the consensus-engine tag of a fork schedule (the type
  \<open>ctypes.ConsensusEngineT\<close> and its method \<open>IsClique\<close> are declared in package
  \<open>ctypes\<close>); proof-of-authority is the clique engine.
\<close>

datatype consensusEngineT =
  ConsensusEngineT_Unknown | ConsensusEngineT_Ethash | ConsensusEngineT_Clique | ConsensusEngineT_Lyra2

definition IsClique :: "consensusEngineT \<Rightarrow> bool" where
  "IsClique t = (t = ConsensusEngineT_Clique)"

text \<open>
  The methods of the chain configuration (\<open>ctypes.ChainConfigurator\<close>, an interface)
  that forkchoice.go and genesis.go call. \<open>IsEnabled\<close> and \<open>IsEnabledByTime\<close>
  receive the result of the getter they are given and the block number or time; how
  they decide is left to the implementation of the interface.
\<close>

record chainConfig =
  GetEthashTerminalTotalDifficulty :: "int option"
  GetECBP1100Transition :: "u64 option"
  IsEnabled :: "u64 option \<Rightarrow> int \<Rightarrow> bool"
  IsEnabledByTime :: "u64 option \<Rightarrow> u64 \<Rightarrow> bool"
  GetConsensusEngineType :: consensusEngineT
  GetEIP1559Transition :: "u64 option"
  GetEIP4895Transition :: "u64 option"
  GetEIP4895TransitionTime :: "u64 option"
  GetEIP4844TransitionTime :: "u64 option"
  GetEIP3651TransitionTime :: "u64 option"
  GetEIP3855TransitionTime :: "u64 option"
  GetEIP3860TransitionTime :: "u64 option"
  GetEIP6049TransitionTime :: "u64 option"

text \<open>
  \<open>consensus.ChainHeaderReader\<close> as \<open>ForkChoice\<close> uses it. \<open>AsBlockChain\<close> is the
  outcome of the type assertion \<open>f.chain.(*BlockChain)\<close>: \<open>None\<close> when the reader is
  not a \<open>*BlockChain\<close>, otherwise \<open>Some\<close> of its \<open>IsArtificialFinalityEnabled()\<close>.
\<close>

record chainReader =
  GetHeader :: "hash \<Rightarrow> u64 \<Rightarrow> header option"
  GetTd :: "hash \<Rightarrow> u64 \<Rightarrow> int option"
  Config :: chainConfig
  AsBlockChain :: "bool option"

text \<open>
  The pseudo-random source \<open>*mrand.Rand\<close>: the sequence of values its seed determines
  and the number of values drawn so far. \<open>Float64\<close> returns the next value and the
  advanced source.
\<close>

record rand =
  src :: "nat \<Rightarrow> rat"
  pos :: nat

definition Float64 :: "rand \<Rightarrow> rat \<times> rand" where
  "Float64 r = (src r (pos r), r\<lparr>pos := Suc (pos r)\<rparr>)"

section \<open>Fork choice (core/forkchoice.go)\<close>

record forkChoice =
  chain :: chainReader
  preserve :: "(header \<Rightarrow> bool) option"

subsection \<open>CommonAncestor\<close>

text \<open>
  \<open>Header.Hash\<close> (the hash of the header's serialization) is defined in package
  \<open>types\<close>; it is the parameter \<open>H\<close>. It has a pointer receiver and is also called
  on a nil header, hence the argument type \<open>header option\<close>.

  The first two loops of \<open>CommonAncestor\<close> are the same loop on either header:
  \<open>for ; h != nil && h.Number != n; h = GetHeader(h.ParentHash, h.Number-1)\<close>.
  A loop that does not end is the value \<open>None\<close>.
\<close>

partial_function (option) reduceTo :: "chainReader \<Rightarrow> header option \<Rightarrow> u64 \<Rightarrow> header option option" where
  "reduceTo c h n =
     (case h of
        None \<Rightarrow> Some None
      | Some x \<Rightarrow>
          if Number x \<noteq> n then reduceTo c (GetHeader c (ParentHash x) (Number x - 1)) n
          else Some (Some x))"

declare reduceTo.simps [code]

text \<open>
  The third loop. Reading \<open>oldH.ParentHash\<close> or \<open>newH.ParentHash\<close> of a nil header
  panics.
\<close>

partial_function (option) lockstep ::
    "(header option \<Rightarrow> hash) \<Rightarrow> chainReader \<Rightarrow> header option \<Rightarrow> header option
      \<Rightarrow> (panic + header option \<times> error option) option" where
  "lockstep H c oldH newH =
     (if H oldH = H newH then Some (Inr (oldH, None))
      else case oldH of
        None \<Rightarrow> Some (Inl NilDereference)
      | Some oh \<Rightarrow>
          (case GetHeader c (ParentHash oh) (Number oh - 1) of
             None \<Rightarrow> Some (Inr (None, Some InvalidOldHChain))
           | Some oh' \<Rightarrow>
               (case newH of
                  None \<Rightarrow> Some (Inl NilDereference)
                | Some nh \<Rightarrow>
                    (case GetHeader c (ParentHash nh) (Number nh - 1) of
                       None \<Rightarrow> Some (Inr (None, Some InvalidNewHChain))
                     | Some nh' \<Rightarrow> lockstep H c (Some oh') (Some nh')))))"

declare lockstep.simps [code]

definition CommonAncestor ::
    "(header option \<Rightarrow> hash) \<Rightarrow> chainReader \<Rightarrow> header \<Rightarrow> header
      \<Rightarrow> (panic + header option \<times> error option) option" where
  "CommonAncestor H c current hdr =
     (if Number current > Number hdr
      then (case reduceTo c (Some current) (Number hdr) of
              None \<Rightarrow> None
            | Some oldH \<Rightarrow> lockstep H c oldH (Some hdr))
      else (case reduceTo c (Some hdr) (Number current) of
              None \<Rightarrow> None
            | Some newH \<Rightarrow> lockstep H c (Some current) newH))"

subsection \<open>ReorgNeeded\<close>

text \<open>
  Lines 137 to 150: the decision by total difficulty, height and tie-break. The random
  source is only drawn from when the right operand of \<open>||\<close> is evaluated.
\<close>

definition tdDecision ::
    "forkChoice \<Rightarrow> rand \<Rightarrow> int \<Rightarrow> int \<Rightarrow> header \<Rightarrow> header \<Rightarrow> bool \<times> rand" where
  "tdDecision f rnd localTD externTd current extern =
     (let reorg = externTd > localTD;
          tie = (externTd = localTD)
      in if tie then
           (if Number extern < Number current then (True, rnd)
            else if Number extern = Number current then
              (let (currentPreserve, externPreserve) =
                     (case preserve f of
                        None \<Rightarrow> (False, False)
                      | Some p \<Rightarrow> (p current, p extern))
               in if currentPreserve then (False, rnd)
                  else if externPreserve then (True, rnd)
                  else (let (x, rnd') = Float64 rnd in (x < 1 / 2, rnd')))
            else (reorg, rnd))
         else (reorg, rnd))"

text \<open>
  Lines 159 to 190, entered with \<open>reorg = true\<close>. \<open>ecbp1100\<close> is defined in another
  file of the package and is the parameter \<open>ecbp\<close>; only whether it returns an
  error matters here. Logging is left out, but not the read of
  \<open>commonHeader.Number\<close> in the condition of the logging branch.
\<close>

definition finalityGate ::
    "(header option \<Rightarrow> hash)
      \<Rightarrow> (header option \<Rightarrow> header \<Rightarrow> header \<Rightarrow> (hash \<Rightarrow> u64 \<Rightarrow> int option) \<Rightarrow> 'e option)
      \<Rightarrow> forkChoice \<Rightarrow> rand \<Rightarrow> header \<Rightarrow> header
      \<Rightarrow> (panic + (bool \<times> error option) \<times> rand) option" where
  "finalityGate H ecbp f rnd current extern =
     (if AsBlockChain (chain f) = Some False then Some (Inr ((True, None), rnd))
      else if \<not> IsEnabled (Config (chain f)) (GetECBP1100Transition (Config (chain f)))
                  (uint (Number current))
      then Some (Inr ((True, None), rnd))
      else (case CommonAncestor H (chain f) current extern of
              None \<Rightarrow> None
            | Some (Inl p) \<Rightarrow> Some (Inl p)
            | Some (Inr (commonHeader, Some err)) \<Rightarrow> Some (Inr ((True, Some err), rnd))
            | Some (Inr (commonHeader, None)) \<Rightarrow>
                (case ecbp commonHeader current extern (GetTd (chain f)) of
                   Some e \<Rightarrow> Some (Inr ((False, None), rnd))
                 | None \<Rightarrow>
                     (case commonHeader of
                        None \<Rightarrow> Some (Inl NilDereference)
                      | Some ch \<Rightarrow> Some (Inr ((True, None), rnd))))))"

definition ReorgNeeded ::
    "(header option \<Rightarrow> hash)
      \<Rightarrow> (header option \<Rightarrow> header \<Rightarrow> header \<Rightarrow> (hash \<Rightarrow> u64 \<Rightarrow> int option) \<Rightarrow> 'e option)
      \<Rightarrow> forkChoice \<Rightarrow> rand \<Rightarrow> header \<Rightarrow> header
      \<Rightarrow> (panic + (bool \<times> error option) \<times> rand) option" where
  "ReorgNeeded H ecbp f rnd current extern =
     (case GetTd (chain f) (H (Some current)) (Number current) of
        None \<Rightarrow> Some (Inr ((False, Some MissingTd), rnd))
      | Some localTD \<Rightarrow>
          (case GetTd (chain f) (H (Some extern)) (Number extern) of
             None \<Rightarrow> Some (Inr ((False, Some MissingTd), rnd))
           | Some externTd \<Rightarrow>
               if (case GetEthashTerminalTotalDifficulty (Config (chain f)) of
                     None \<Rightarrow> False
                   | Some ttd \<Rightarrow> ttd \<le> externTd)
               then Some (Inr ((True, None), rnd))
               else (let (reorg, rnd') = tdDecision f rnd localTD externTd current extern
                     in if \<not> reorg then Some (Inr ((False, None), rnd'))
                        else finalityGate H ecbp f rnd' current extern)))"

section \<open>Wire encoding of the fork identifier\<close>

text \<open>
  Modelled from the spec: the fork identifier and its wire serialization. The type
  \<open>ID\<close> and \<open>checksumToBytes\<close> of forkid.go and package \<open>rlp\<close> are missing;
  \<open>TestEncoding\<close> in forkid\_test.go builds \<open>ID{Hash, Next}\<close> from a 32-bit checksum
  and a 64-bit integer and compares \<open>rlp.EncodeToBytes\<close> with fixed byte
  sequences. The serialization is length-prefixed: a list of the 4-byte checksum
  and of \<open>next\<close> as a big-endian integer without leading zero bytes; a string of
  up to 55 bytes carries the prefix \<open>0x80 + length\<close>, except a single byte below
  \<open>0x80\<close>, which stands for itself; a list of up to 55 bytes carries the prefix
  \<open>0xC0 + length\<close>. A zero-valued \<open>next\<close> is the single byte \<open>0x80\<close> of the
  spec's own example.
\<close>

record forkID =
  Hash :: "32 word"
  Next :: u64

text \<open>Modelled from the spec: the checksum as 4 bytes, most significant first.\<close>

definition checksumToBytes :: "32 word \<Rightarrow> byte list" where
  "checksumToBytes c = [ucast (drop_bit 24 c), ucast (drop_bit 16 c), ucast (drop_bit 8 c), ucast c]"

text \<open>
  Modelled from the spec: the big-endian bytes of an unsigned integer, without leading
  zero bytes (none at all for zero).
\<close>

fun putint :: "nat \<Rightarrow> byte list" where
  "putint n = (if n = 0 then [] else putint (n div 256) @ [of_nat (n mod 256)])"

declare putint.simps [simp del]

text \<open>Modelled from the spec: the variable-length unsigned integer.\<close>

definition encodeUint :: "u64 \<Rightarrow> byte list" where
  "encodeUint i =
     (if i = 0 then [0x80]
      else if i < 128 then [ucast i]
      else (let bs = putint (unat i) in of_nat (0x80 + length bs) # bs))"

text \<open>
  Modelled from the spec: \<open>rlp.EncodeToBytes\<close> on a fork identifier, the list of its
  two fields.
\<close>

definition EncodeToBytes :: "forkID \<Rightarrow> byte list" where
  "EncodeToBytes i =
     (let payload = (0x84 # checksumToBytes (Hash i)) @ encodeUint (Next i)
      in of_nat (0xC0 + length payload) # payload)"

text \<open>
  Modelled from the spec: decoding. \<open>readItem\<close> reads one length-prefixed item off
  the input and returns it with the rest of the input; the long forms (a length of 56
  bytes or more) cannot hold a fork identifier and are refused. A single byte below
  \<open>0x80\<close> wrapped as a string, an integer with a leading zero byte, an integer of
  more than 8 bytes and a checksum that is not 4 bytes long are refused, as is input
  left over after the list or inside it.
\<close>

datatype rlpError =
  ErrEOF | ErrValueTooLarge | ErrCanonSize | ErrCanonInt | ErrUintOverflow
| ErrExpectedList | ErrExpectedString | ErrWrongSize | ErrLongForm
| ErrMoreThanOneValue | ErrTooFewElements | ErrTooManyElements

datatype item = ByteItem byte | StringItem "byte list" | ListItem "byte list"

text \<open>Modelled from the spec: the value of a big-endian byte string.\<close>

definition readUintBE :: "byte list \<Rightarrow> nat" where
  "readUintBE bs = foldl (\<lambda>a b. a * 256 + unat b) 0 bs"

text \<open>Modelled from the spec: one item header and its content.\<close>

fun readItem :: "byte list \<Rightarrow> rlpError + item \<times> byte list" where
  "readItem [] = Inl ErrEOF"
| "readItem (b # bs) =
     (if b < 0x80 then Inr (ByteItem b, bs)
      else if b < 0xB8 then
        (let n = unat b - 0x80
         in if length bs < n then Inl ErrValueTooLarge
            else if n = 1 \<and> hd bs < 0x80 then Inl ErrCanonSize
            else Inr (StringItem (take n bs), drop n bs))
      else if b < 0xC0 then Inl ErrLongForm
      else if b < 0xF8 then
        (let n = unat b - 0xC0
         in if length bs < n then Inl ErrValueTooLarge
            else Inr (ListItem (take n bs), drop n bs))
      else Inl ErrLongForm)"

text \<open>Modelled from the spec: decoding the 4-byte checksum.\<close>

definition decodeChecksum :: "byte list \<Rightarrow> rlpError + 32 word \<times> byte list" where
  "decodeChecksum bs =
     (case readItem bs of
        Inl e \<Rightarrow> Inl e
      | Inr (ByteItem b, rest) \<Rightarrow> Inl ErrWrongSize
      | Inr (StringItem s, rest) \<Rightarrow>
          if length s \<noteq> 4 then Inl ErrWrongSize else Inr (of_nat (readUintBE s), rest)
      | Inr (ListItem l, rest) \<Rightarrow> Inl ErrExpectedString)"

text \<open>Modelled from the spec: decoding the unsigned integer.\<close>

definition decodeUint :: "byte list \<Rightarrow> rlpError + u64 \<times> byte list" where
  "decodeUint bs =
     (case readItem bs of
        Inl e \<Rightarrow> Inl e
      | Inr (ByteItem b, rest) \<Rightarrow> if b = 0 then Inl ErrCanonInt else Inr (ucast b, rest)
      | Inr (StringItem s, rest) \<Rightarrow>
          if length s > 8 then Inl ErrUintOverflow
          else if s \<noteq> [] \<and> hd s = 0 then Inl ErrCanonInt
          else Inr (of_nat (readUintBE s), rest)
      | Inr (ListItem l, rest) \<Rightarrow> Inl ErrExpectedString)"

text \<open>Modelled from the spec: \<open>rlp.DecodeBytes\<close> into a fork identifier.\<close>

definition DecodeBytes :: "byte list \<Rightarrow> rlpError + forkID" where
  "DecodeBytes bs =
     (case readItem bs of
        Inl e \<Rightarrow> Inl e
      | Inr (ByteItem b, rest) \<Rightarrow> Inl ErrExpectedList
      | Inr (StringItem s, rest) \<Rightarrow> Inl ErrExpectedList
      | Inr (ListItem payload, rest) \<Rightarrow>
          if rest \<noteq> [] then Inl ErrMoreThanOneValue
          else (case decodeChecksum payload of
                  Inl e \<Rightarrow> Inl e
                | Inr (h, r1) \<Rightarrow>
                    if r1 = [] then Inl ErrTooFewElements
                    else (case decodeUint r1 of
                            Inl e \<Rightarrow> Inl e
                          | Inr (n, r2) \<Rightarrow>
                              if r2 \<noteq> [] then Inl ErrTooManyElements
                              else Inr \<lparr>Hash = h, Next = n\<rparr>)))"

section \<open>Genesis (core/genesis.go)\<close>

subsection \<open>Data\<close>

text \<open>
  \<open>genesisT.Genesis\<close>; the fields carry the prefix \<open>g\<close> of the receiver to keep them
  apart from the header's. The allocation maps addresses to accounts.
\<close>

record genesisAccount =
  accCode :: "byte list"
  accStorage :: "(hash \<times> hash) list"
  accBalance :: int
  accNonce :: u64

type_synonym genesisAlloc = "(address \<times> genesisAccount) list"

record genesis =
  gConfig :: "chainConfig option"
  gNonce :: u64
  gTimestamp :: u64
  gExtraData :: "byte list"
  gGasLimit :: u64
  gDifficulty :: "int option"
  gMixhash :: hash
  gCoinbase :: address
  gAlloc :: genesisAlloc
  gNumber :: u64
  gGasUsed :: u64
  gParentHash :: hash
  gBaseFee :: "int option"
  gExcessBlobGas :: "u64 option"
  gBlobGasUsed :: "u64 option"

record chainOverrides =
  OverrideShanghai :: "u64 option"
  OverrideCancun :: "u64 option"
  OverrideVerkle :: "u64 option"

text \<open>
  A block as \<open>GenesisToBlock\<close> builds it: the header, no transactions, uncles or
  receipts, and the withdrawals (nil, or the empty list).
\<close>

record block =
  blockHeader :: header
  blockWithdrawals :: "unit list option"

datatype genesisError =
  ErrGenesisNoConfig                 \<comment> \<open>\<open>genesisT.ErrGenesisNoConfig\<close>\<close>
| GenesisMismatchError hash hash     \<comment> \<open>\<open>&genesisT.GenesisMismatchError{Stored, New}\<close>\<close>
| ErrNonZeroGenesis                  \<comment> \<open>"can't commit genesis block with number > 0"\<close>
| ErrCliqueNoSigners                 \<comment> \<open>"can't start clique chain without signers"\<close>
| ErrMissingHeadHeader               \<comment> \<open>"missing head header"\<close>
| ConfigCompatError u64 u64          \<comment> \<open>the error of \<open>confp.Compatible\<close>: \<open>RewindToBlock\<close>, \<open>RewindToTime\<close>\<close>
| ErrState                           \<comment> \<open>an error of the state package\<close>
| ErrMarshal                         \<comment> \<open>an error of \<open>json.Marshal\<close>\<close>

text \<open>
  Modelled from the spec: the persisted state behind the accessors of package
  \<open>rawdb\<close>, which is missing: canonical hash by number, headers and bodies
  by hash and number, the number of a header by hash, total difficulty, receipts, the
  three head pointers, the chain configuration by genesis hash, the genesis allocation
  blob by hash, and the state trie nodes present.
\<close>

record database =
  canonicalHash :: "u64 \<rightharpoonup> hash"
  headers :: "hash \<times> u64 \<rightharpoonup> header"
  bodies :: "hash \<times> u64 \<rightharpoonup> unit list option"
  headerNumbers :: "hash \<rightharpoonup> u64"
  totalDifficulty :: "hash \<times> u64 \<rightharpoonup> int"
  receipts :: "hash \<times> u64 \<rightharpoonup> unit list"
  headBlockHash :: "hash option"
  headFastBlockHash :: "hash option"
  headHeaderHash :: "hash option"
  chainConfigs :: "hash \<rightharpoonup> chainConfig"
  genesisStateSpec :: "hash \<rightharpoonup> byte list"
  trieNodes :: "hash set"

text \<open>Modelled from the spec: \<open>rawdb.NewMemoryDatabase\<close>, a store with nothing in it.\<close>

definition NewMemoryDatabase :: database where
  "NewMemoryDatabase =
     \<lparr>canonicalHash = Map.empty, headers = Map.empty, bodies = Map.empty,
      headerNumbers = Map.empty, totalDifficulty = Map.empty, receipts = Map.empty,
      headBlockHash = None, headFastBlockHash = None, headHeaderHash = None,
      chainConfigs = Map.empty, genesisStateSpec = Map.empty, trieNodes = {}\<rparr>"

text \<open>
  Modelled from the spec: the \<open>rawdb\<close> readers. A canonical hash that is not stored
  reads as the zero hash; a header, configuration or head header that is not stored
  reads as nil.
\<close>

definition ReadCanonicalHash :: "database \<Rightarrow> u64 \<Rightarrow> hash" where
  "ReadCanonicalHash db n = (case canonicalHash db n of None \<Rightarrow> 0 | Some h \<Rightarrow> h)"

definition ReadHeader :: "database \<Rightarrow> hash \<Rightarrow> u64 \<Rightarrow> header option" where
  "ReadHeader db h n = headers db (h, n)"

definition HasLegacyTrieNode :: "database \<Rightarrow> hash \<Rightarrow> bool" where
  "HasLegacyTrieNode db r = (r \<in> trieNodes db)"

definition ReadChainConfig :: "database \<Rightarrow> hash \<Rightarrow> chainConfig option" where
  "ReadChainConfig db h = chainConfigs db h"

definition ReadHeadHeader :: "database \<Rightarrow> header option" where
  "ReadHeadHeader db =
     (case headHeaderHash db of
        None \<Rightarrow> None
      | Some h \<Rightarrow> (case headerNumbers db h of None \<Rightarrow> None | Some n \<Rightarrow> headers db (h, n)))"

text \<open>
  Modelled from the spec: the \<open>rawdb\<close> writers, each storing one record under its
  key. \<open>WriteBlock\<close> stores the header (with its number by hash) and the body;
  \<open>WriteChainConfig\<close> stores nothing for a nil configuration.
\<close>

definition WriteGenesisStateSpec :: "database \<Rightarrow> hash \<Rightarrow> byte list \<Rightarrow> database" where
  "WriteGenesisStateSpec db h blob = db\<lparr>genesisStateSpec := (genesisStateSpec db)(h \<mapsto> blob)\<rparr>"

definition WriteTd :: "database \<Rightarrow> hash \<Rightarrow> u64 \<Rightarrow> int \<Rightarrow> database" where
  "WriteTd db h n td = db\<lparr>totalDifficulty := (totalDifficulty db)((h, n) \<mapsto> td)\<rparr>"

definition WriteBlock :: "(header option \<Rightarrow> hash) \<Rightarrow> database \<Rightarrow> block \<Rightarrow> database" where
  "WriteBlock H db b =
     (let h = H (Some (blockHeader b)); n = Number (blockHeader b)
      in db\<lparr>bodies := (bodies db)((h, n) \<mapsto> blockWithdrawals b),
            headerNumbers := (headerNumbers db)(h \<mapsto> n),
            headers := (headers db)((h, n) \<mapsto> blockHeader b)\<rparr>)"

definition WriteReceipts :: "database \<Rightarrow> hash \<Rightarrow> u64 \<Rightarrow> unit list \<Rightarrow> database" where
  "WriteReceipts db h n rs = db\<lparr>receipts := (receipts db)((h, n) \<mapsto> rs)\<rparr>"

definition WriteCanonicalHash :: "database \<Rightarrow> hash \<Rightarrow> u64 \<Rightarrow> database" where
  "WriteCanonicalHash db h n = db\<lparr>canonicalHash := (canonicalHash db)(n \<mapsto> h)\<rparr>"

definition WriteHeadBlockHash :: "database \<Rightarrow> hash \<Rightarrow> database" where
  "WriteHeadBlockHash db h = db\<lparr>headBlockHash := Some h\<rparr>"

definition WriteHeadFastBlockHash :: "database \<Rightarrow> hash \<Rightarrow> database" where
  "WriteHeadFastBlockHash db h = db\<lparr>headFastBlockHash := Some h\<rparr>"

definition WriteHeadHeaderHash :: "database \<Rightarrow> hash \<Rightarrow> database" where
  "WriteHeadHeaderHash db h = db\<lparr>headHeaderHash := Some h\<rparr>"

definition WriteChainConfig :: "database \<Rightarrow> hash \<Rightarrow> chainConfig option \<Rightarrow> database" where
  "WriteChainConfig db h cfg =
     (case cfg of
        None \<Rightarrow> db
      | Some c \<Rightarrow> db\<lparr>chainConfigs := (chainConfigs db)(h \<mapsto> c)\<rparr>)"

text \<open>
  What genesis.go takes from other packages, as parameters: the header hash (also the
  block hash), \<open>confp.IsEmpty\<close>, \<open>confp.Identical\<close> (with the two ignored field
  names fixed), \<open>confp.Compatible\<close> (\<open>None\<close> for no error, otherwise the block and
  the time to rewind to), \<open>json.Marshal\<close> on a configuration and on an
  allocation, the state root that the state package computes for an allocation applied
  to the empty state (\<open>None\<close> when it reports an error), the default genesis block, the
  built-in configurations by genesis hash in the order of the \<open>switch\<close> in
  \<open>configOrDefault\<close>, \<open>params.AllEthashProtocolChanges\<close>, and the constants of
  package \<open>vars\<close> and \<open>types\<close>.
\<close>

record env =
  HeaderHash :: "header option \<Rightarrow> hash"
  IsEmpty :: "chainConfig option \<Rightarrow> bool"
  Identical :: "chainConfig \<Rightarrow> chainConfig option \<Rightarrow> bool"
  Compatible :: "u64 \<Rightarrow> u64 \<Rightarrow> chainConfig \<Rightarrow> chainConfig option \<Rightarrow> (u64 \<times> u64) option"
  MarshalConfig :: "chainConfig option \<Rightarrow> byte list"
  MarshalAlloc :: "genesisAlloc \<Rightarrow> byte list option"
  StateRoot :: "genesisAlloc \<Rightarrow> hash option"
  DefaultGenesisBlock :: genesis
  BuiltinConfigs :: "(hash \<times> chainConfig) list"
  AllEthashProtocolChanges :: chainConfig
  GenesisGasLimit :: u64
  GenesisDifficulty :: int
  InitialBaseFee :: u64
  EmptyRootHash :: hash
  EmptyWithdrawalsHash :: hash

text \<open>
  Modelled from the spec: the setters of the configuration that \<open>applyOverrides\<close>
  calls store the override as the activation time of their upgrade.
\<close>

definition applyOverrides :: "chainOverrides option \<Rightarrow> chainConfig option \<Rightarrow> chainConfig option" where
  "applyOverrides overrides config =
     (case config of
        None \<Rightarrow> None
      | Some c \<Rightarrow>
          (let c1 = (case overrides of
                       None \<Rightarrow> c
                     | Some ov \<Rightarrow>
                         (case OverrideShanghai ov of
                            None \<Rightarrow> c
                          | Some t \<Rightarrow>
                              c\<lparr>GetEIP3651TransitionTime := Some t,
                                GetEIP3855TransitionTime := Some t,
                                GetEIP3860TransitionTime := Some t,
                                GetEIP4895TransitionTime := Some t,
                                GetEIP6049TransitionTime := Some t\<rparr>));
               c2 = (case overrides of
                       None \<Rightarrow> c1
                     | Some ov \<Rightarrow>
                         (case OverrideCancun ov of
                            None \<Rightarrow> c1
                          | Some t \<Rightarrow> c1\<lparr>GetEIP4844TransitionTime := Some t\<rparr>))
           in Some c2))"

definition configOrDefault :: "env \<Rightarrow> genesis option \<Rightarrow> hash \<Rightarrow> chainConfig option" where
  "configOrDefault e g ghash =
     (case g of
        Some g' \<Rightarrow> gConfig g'
      | None \<Rightarrow>
          (case map_of (BuiltinConfigs e) ghash of
             Some c \<Rightarrow> Some c
           | None \<Rightarrow> Some (AllEthashProtocolChanges e)))"

subsection \<open>gaFlush, GenesisToBlock, CommitGenesis\<close>

text \<open>
  \<open>gaFlush\<close> and \<open>gaDeriveHash\<close> apply the allocation to an empty state and commit
  it; the state package does that, and its result is \<open>StateRoot\<close>. \<open>gaFlush\<close> then
  commits the trie when the root is not the empty root, which makes the node of the
  root present in the database, and stores the marshalled allocation under the root.
\<close>

definition gaFlush :: "env \<Rightarrow> genesisAlloc \<Rightarrow> database \<Rightarrow> genesisError + database" where
  "gaFlush e ga db =
     (case StateRoot e ga of
        None \<Rightarrow> Inl ErrState
      | Some sroot \<Rightarrow>
          (let db1 = (if sroot \<noteq> EmptyRootHash e then db\<lparr>trieNodes := insert sroot (trieNodes db)\<rparr> else db)
           in case MarshalAlloc e ga of
                None \<Rightarrow> Inl ErrMarshal
              | Some blob \<Rightarrow> Inr (WriteGenesisStateSpec db1 sroot blob)))"

definition gaDeriveHash :: "env \<Rightarrow> genesisAlloc \<Rightarrow> genesisError + hash" where
  "gaDeriveHash e ga = (case StateRoot e ga of None \<Rightarrow> Inl ErrState | Some sroot \<Rightarrow> Inr sroot)"

definition gaWrite :: "env \<Rightarrow> genesisAlloc \<Rightarrow> database \<Rightarrow> hash \<Rightarrow> genesisError + database" where
  "gaWrite e ga db h =
     (case MarshalAlloc e ga of
        None \<Rightarrow> Inl ErrMarshal
      | Some blob \<Rightarrow> Inr (WriteGenesisStateSpec db h blob))"

text \<open>
  The header that \<open>GenesisToBlock\<close> builds (lines 409 to 457) from the
  specification and the state root, and the two upgrade tests it makes.
\<close>

definition isEIP4895 :: "genesis \<Rightarrow> bool" where
  "isEIP4895 g =
     (case gConfig g of
        None \<Rightarrow> False
      | Some conf \<Rightarrow>
          IsEnabledByTime conf (GetEIP4895TransitionTime conf) (gTimestamp g)
          \<or> IsEnabled conf (GetEIP4895Transition conf) (uint (gNumber g)))"

definition isCancun :: "genesis \<Rightarrow> bool" where
  "isCancun g =
     (case gConfig g of
        None \<Rightarrow> False
      | Some conf \<Rightarrow> IsEnabledByTime conf (GetEIP4844TransitionTime conf) (gTimestamp g))"

definition genesisHeader :: "env \<Rightarrow> genesis \<Rightarrow> hash \<Rightarrow> header" where
  "genesisHeader e g sroot =
     \<lparr>ParentHash = gParentHash g,
      Number = gNumber g,
      Time = gTimestamp g,
      Extra = gExtraData g,
      Root = sroot,
      Nonce = gNonce g,
      GasLimit = (if gGasLimit g = 0 then GenesisGasLimit e else gGasLimit g),
      GasUsed = gGasUsed g,
      BaseFee = (case gConfig g of
                   None \<Rightarrow> gBaseFee g
                 | Some c \<Rightarrow>
                     if IsEnabled c (GetEIP1559Transition c) 0
                     then (case gBaseFee g of
                             Some f \<Rightarrow> Some f
                           | None \<Rightarrow> Some (uint (InitialBaseFee e)))
                     else gBaseFee g),
      Difficulty = (case gDifficulty g of None \<Rightarrow> GenesisDifficulty e | Some d \<Rightarrow> d),
      MixDigest = gMixhash g,
      Coinbase = gCoinbase g,
      WithdrawalsHash = (if isEIP4895 g then Some (EmptyWithdrawalsHash e) else None),
      ExcessBlobGas = (if isCancun g
                       then Some (case gExcessBlobGas g of None \<Rightarrow> 0 | Some x \<Rightarrow> x)
                       else None),
      BlobGasUsed = (if isCancun g
                     then Some (case gBlobGasUsed g of None \<Rightarrow> 0 | Some x \<Rightarrow> x)
                     else None)\<rparr>"

text \<open>
  \<open>GenesisToBlock\<close> returns the block; the second component is the database it wrote
  the state to: the one given, or a fresh memory database when it was given nil. An
  error of \<open>gaDeriveHash\<close> or \<open>gaFlush\<close> is a panic.
\<close>

definition GenesisToBlock :: "env \<Rightarrow> genesis \<Rightarrow> database option \<Rightarrow> panic + block \<times> database" where
  "GenesisToBlock e g dbo =
     (let db = (case dbo of None \<Rightarrow> NewMemoryDatabase | Some d \<Rightarrow> d)
      in case gaDeriveHash e (gAlloc g) of
           Inl err \<Rightarrow> Inl PanicError
         | Inr sroot \<Rightarrow>
             (case gaFlush e (gAlloc g) db of
                Inl err \<Rightarrow> Inl PanicError
              | Inr db' \<Rightarrow>
                  Inr (\<lparr>blockHeader = genesisHeader e g sroot,
                        blockWithdrawals = (if isEIP4895 g then Some [] else None)\<rparr>, db')))"

text \<open>
  \<open>CommitGenesis\<close> returns the block or the error, and the database as the call
  leaves it. The state and the allocation blob keyed by state root are written by
  \<open>GenesisToBlock\<close> before the two checks.
\<close>

definition CommitGenesis ::
    "env \<Rightarrow> genesis \<Rightarrow> database \<Rightarrow> panic + (genesisError + block) \<times> database" where
  "CommitGenesis e g db =
     (case GenesisToBlock e g (Some db) of
        Inl p \<Rightarrow> Inl p
      | Inr (block, db1) \<Rightarrow>
          if Number (blockHeader block) \<noteq> 0 then Inr (Inl ErrNonZeroGenesis, db1)
          else
            (let config = (case gConfig g of None \<Rightarrow> AllEthashProtocolChanges e | Some c \<Rightarrow> c);
                 h = HeaderHash e (Some (blockHeader block));
                 n = Number (blockHeader block)
             in if IsClique (GetConsensusEngineType config) \<and> length (Extra (blockHeader block)) = 0
                then Inr (Inl ErrCliqueNoSigners, db1)
                else (case gaWrite e (gAlloc g) db1 h of
                        Inl err \<Rightarrow> Inr (Inl err, db1)
                      | Inr db2 \<Rightarrow>
                          (let db3 = WriteTd db2 h n (Difficulty (blockHeader block));
                               db4 = WriteBlock (HeaderHash e) db3 block;
                               db5 = WriteReceipts db4 h n [];
                               db6 = WriteCanonicalHash db5 h n;
                               db7 = WriteHeadBlockHash db6 h;
                               db8 = WriteHeadFastBlockHash db7 h;
                               db9 = WriteHeadHeaderHash db8 h;
                               db10 = WriteChainConfig db9 h (Some config)
                           in Inr (Inr block, db10)))))"

subsection \<open>SetupGenesisBlockWithOverride\<close>

text \<open>
  The result is the triple the function returns (configuration, hash, error) and the
  database as the call leaves it. Lines 162 to 221, reached when the stored genesis is
  accepted, are \<open>reconcileConfig\<close>; in the special case of line 183 the stored
  configuration is returned after the overrides were applied to it through the alias
  \<open>newcfg\<close>.
\<close>

definition reconcileConfig ::
    "env \<Rightarrow> database \<Rightarrow> genesis option \<Rightarrow> chainOverrides option \<Rightarrow> hash
      \<Rightarrow> (chainConfig option \<times> hash \<times> genesisError option) \<times> database" where
  "reconcileConfig e db genesis overrides stored =
     (let newcfg = applyOverrides overrides (configOrDefault e genesis stored)
      in case ReadChainConfig db stored of
           None \<Rightarrow> ((newcfg, stored, None), WriteChainConfig db stored newcfg)
         | Some storedcfg \<Rightarrow>
             (let storedData = MarshalConfig e (Some storedcfg)
              in if genesis = None \<and> \<not> Identical e storedcfg newcfg
                 then ((applyOverrides overrides (Some storedcfg), stored, None), db)
                 else (case ReadHeadHeader db of
                         None \<Rightarrow> ((newcfg, stored, Some ErrMissingHeadHeader), db)
                       | Some head \<Rightarrow>
                           (case Compatible e (Number head) (Time head) storedcfg newcfg of
                              None \<Rightarrow>
                                if MarshalConfig e newcfg \<noteq> storedData
                                then ((newcfg, stored, None), WriteChainConfig db stored newcfg)
                                else ((newcfg, stored, None), db)
                            | Some (rewindToBlock, rewindToTime) \<Rightarrow>
                                if (Number head \<noteq> 0 \<and> rewindToBlock \<noteq> 0)
                                   \<or> (Time head \<noteq> 0 \<and> rewindToTime \<noteq> 0)
                                then ((newcfg, stored, Some (ConfigCompatError rewindToBlock rewindToTime)), db)
                                else if MarshalConfig e newcfg \<noteq> storedData
                                then ((newcfg, stored, None), WriteChainConfig db stored newcfg)
                                else ((newcfg, stored, None), db)))))"

definition SetupGenesisBlockWithOverride ::
    "env \<Rightarrow> database \<Rightarrow> genesis option \<Rightarrow> chainOverrides option
      \<Rightarrow> panic + (chainConfig option \<times> hash \<times> genesisError option) \<times> database" where
  "SetupGenesisBlockWithOverride e db genesis overrides =
     (if (case genesis of None \<Rightarrow> False | Some g \<Rightarrow> IsEmpty e (gConfig g))
      then Inr ((Some (AllEthashProtocolChanges e), 0, Some ErrGenesisNoConfig), db)
      else
        (let stored = ReadCanonicalHash db 0;
             g = (case genesis of None \<Rightarrow> DefaultGenesisBlock e | Some g' \<Rightarrow> g')
         in if stored = 0 then
              (case CommitGenesis e g db of
                 Inl p \<Rightarrow> Inl p
               | Inr (Inl err, db') \<Rightarrow> Inr ((gConfig g, 0, Some err), db')
               | Inr (Inr block, db') \<Rightarrow>
                   Inr ((applyOverrides overrides (gConfig g),
                         HeaderHash e (Some (blockHeader block)), None), db'))
            else
              (case ReadHeader db stored 0 of
                 None \<Rightarrow> Inl NilDereference
               | Some hdr \<Rightarrow>
                   if Root hdr \<noteq> EmptyRootHash e \<and> \<not> HasLegacyTrieNode db (Root hdr) then
                     (case GenesisToBlock e g None of
                        Inl p \<Rightarrow> Inl p
                      | Inr (blk, mem) \<Rightarrow>
                          (let hash = HeaderHash e (Some (blockHeader blk))
                           in if hash \<noteq> stored
                              then Inr ((gConfig g, hash, Some (GenesisMismatchError stored hash)), db)
                              else (case CommitGenesis e g db of
                                      Inl p \<Rightarrow> Inl p
                                    | Inr (Inl err, db') \<Rightarrow> Inr ((gConfig g, hash, Some err), db')
                                    | Inr (Inr block, db') \<Rightarrow>
                                        Inr ((applyOverrides overrides (gConfig g),
                                              HeaderHash e (Some (blockHeader block)), None), db'))))
                   else
                     (case genesis of
                        None \<Rightarrow> Inr (reconcileConfig e db genesis overrides stored)
                      | Some g' \<Rightarrow>
                          (case GenesisToBlock e g' None of
                             Inl p \<Rightarrow> Inl p
                           | Inr (blk, mem) \<Rightarrow>
                               (let hash = HeaderHash e (Some (blockHeader blk))
                                in if hash \<noteq> stored
                                   then Inr ((gConfig g', hash, Some (GenesisMismatchError stored hash)), db)
                                   else Inr (reconcileConfig e db genesis overrides stored)))))))"

subsection \<open>Walking a chain by parent lookups\<close>

text \<open>
  \<open>ancestor c h k\<close> is the header reached from \<open>h\<close> by \<open>k\<close> parent lookups
  \<open>GetHeader(h.ParentHash, h.Number-1)\<close>, if they all succeed. \<open>descends c h k\<close>
  says that they do succeed and that each parent found is one block lower, without
  wrapping below height zero.
\<close>

fun ancestor :: "chainReader \<Rightarrow> header \<Rightarrow> nat \<Rightarrow> header option" where
  "ancestor c h 0 = Some h"
| "ancestor c h (Suc k) =
     (case GetHeader c (ParentHash h) (Number h - 1) of
        None \<Rightarrow> None
      | Some p \<Rightarrow> ancestor c p k)"

fun descends :: "chainReader \<Rightarrow> header \<Rightarrow> nat \<Rightarrow> bool" where
  "descends c h 0 = True"
| "descends c h (Suc k) =
     (Number h \<noteq> 0 \<and>
      (case GetHeader c (ParentHash h) (Number h - 1) of
         None \<Rightarrow> False
       | Some p \<Rightarrow> Number p = Number h - 1 \<and> descends c p k))"

subsection \<open>A small chain for concrete runs\<close>

text \<open>
  A hash function that is injective on the headers used below (and gives the nil header
  the hash of the empty list), a reader over a list of stored headers and a table of
  total difficulties, a random source that always yields the same value, and a
  deep-reorg check that rejects everything.
\<close>

definition ex_hash :: "header option \<Rightarrow> hash" where
  "ex_hash h = (case h of
      None \<Rightarrow> 0x1dcc4de8dec75d7aab85b567b6ccd41ad312451b948a7413f0a142fd40d49347
    | Some x \<Rightarrow> ParentHash x * 1000 + ucast (Number x) * 10 + ucast (Time x) + 1)"

definition ex_header :: "hash \<Rightarrow> u64 \<Rightarrow> u64 \<Rightarrow> header" where
  "ex_header p n t =
     \<lparr>ParentHash = p, Number = n, Time = t, Extra = [], Root = 0, Nonce = 0, GasLimit = 0,
      GasUsed = 0, BaseFee = None, Difficulty = 1, MixDigest = 0, Coinbase = 0,
      WithdrawalsHash = None, ExcessBlobGas = None, BlobGasUsed = None\<rparr>"

definition ex_config :: "int option \<Rightarrow> chainConfig" where
  "ex_config ttd =
     \<lparr>GetEthashTerminalTotalDifficulty = ttd,
      GetECBP1100Transition = Some 0,
      IsEnabled = (\<lambda>t n. case t of None \<Rightarrow> False | Some v \<Rightarrow> uint v \<le> n),
      IsEnabledByTime = (\<lambda>t n. case t of None \<Rightarrow> False | Some v \<Rightarrow> v \<le> n),
      GetConsensusEngineType = ConsensusEngineT_Ethash,
      GetEIP1559Transition = None,
      GetEIP4895Transition = None,
      GetEIP4895TransitionTime = None,
      GetEIP4844TransitionTime = None,
      GetEIP3651TransitionTime = None,
      GetEIP3855TransitionTime = None,
      GetEIP3860TransitionTime = None,
      GetEIP6049TransitionTime = None\<rparr>"

definition ex_reader ::
    "header list \<Rightarrow> ((hash \<times> u64) \<times> int) list \<Rightarrow> int option \<Rightarrow> bool option \<Rightarrow> chainReader" where
  "ex_reader hs tds ttd af =
     \<lparr>GetHeader = (\<lambda>h n. find (\<lambda>x. ex_hash (Some x) = h \<and> Number x = n) hs),
      GetTd = (\<lambda>h n. map_of tds (h, n)),
      Config = ex_config ttd,
      AsBlockChain = af\<rparr>"

definition ex_rand :: "rat \<Rightarrow> rand" where
  "ex_rand q = \<lparr>src = (\<lambda>_. q), pos = 0\<rparr>"

definition ex_reject :: "header option \<Rightarrow> header \<Rightarrow> header \<Rightarrow> (hash \<Rightarrow> u64 \<Rightarrow> int option) \<Rightarrow> unit option" where
  "ex_reject ch cur ext td = Some ()"

definition ex_accept :: "header option \<Rightarrow> header \<Rightarrow> header \<Rightarrow> (hash \<Rightarrow> u64 \<Rightarrow> int option) \<Rightarrow> unit option" where
  "ex_accept ch cur ext td = None"

definition ex_prefer_all :: "header \<Rightarrow> bool" where
  "ex_prefer_all h = True"

definition ex_fc :: "((hash \<times> u64) \<times> int) list \<Rightarrow> int option \<Rightarrow> bool option \<Rightarrow> (header \<Rightarrow> bool) option \<Rightarrow> forkChoice" where
  "ex_fc tds ttd af p = \<lparr>chain = ex_reader [ex_header 0 0 0] tds ttd af, preserve = p\<rparr>"

definition ex_store :: "header list" where
  "ex_store = [ex_header 0 0 0, ex_header 1 1 0, ex_header 1011 2 0, ex_header 1011 2 5]"

subsection \<open>A genesis specification and a store for concrete runs\<close>

text \<open>
  An environment in which a configuration is empty exactly when it is nil, every
  allocation has state root 7 and an empty blob, and headers are hashed by
  \<open>ex_hash\<close>; a specification with all fields zero but the configuration, the
  number and the extra data; and a store that holds a genesis with hash 77.
\<close>

definition ex_is_empty :: "chainConfig option \<Rightarrow> bool" where
  "ex_is_empty c = (case c of None \<Rightarrow> True | Some x \<Rightarrow> False)"

definition ex_env :: env where
  "ex_env =
     \<lparr>HeaderHash = ex_hash,
      IsEmpty = ex_is_empty,
      Identical = (\<lambda>a b. True),
      Compatible = (\<lambda>n t a b. None),
      MarshalConfig = (\<lambda>c. []),
      MarshalAlloc = (\<lambda>a. Some []),
      StateRoot = (\<lambda>a. Some 7),
      DefaultGenesisBlock =
        \<lparr>gConfig = Some (ex_config None), gNonce = 0, gTimestamp = 0, gExtraData = [],
         gGasLimit = 0, gDifficulty = None, gMixhash = 0, gCoinbase = 0, gAlloc = [],
         gNumber = 0, gGasUsed = 0, gParentHash = 0, gBaseFee = None,
         gExcessBlobGas = None, gBlobGasUsed = None\<rparr>,
      BuiltinConfigs = [],
      AllEthashProtocolChanges = ex_config None,
      GenesisGasLimit = 4712388,
      GenesisDifficulty = 131072,
      InitialBaseFee = 1000000000,
      EmptyRootHash = 0x56e81f171bcc55a6ff8345e692c0f86e5b48e01b996cadc001622fb5e363b421,
      EmptyWithdrawalsHash = 0x56e81f171bcc55a6ff8345e692c0f86e5b48e01b996cadc001622fb5e363b421\<rparr>"

definition ex_genesis :: "chainConfig option \<Rightarrow> u64 \<Rightarrow> byte list \<Rightarrow> genesis" where
  "ex_genesis cfg n extra = (DefaultGenesisBlock ex_env)\<lparr>gConfig := cfg, gNumber := n, gExtraData := extra\<rparr>"

definition ex_db :: database where
  "ex_db = NewMemoryDatabase
     \<lparr>canonicalHash := [0 \<mapsto> 77],
      headers := [(77, 0) \<mapsto> ex_header 0 0 9]\<rparr>"

section \<open>Properties of the fork choice\<close>

lemmas ex_defs = ex_hash_def ex_header_def ex_config_def ex_reader_def ex_rand_def ex_reject_def

lemmas ex_run = ex_fc_def ex_defs ReorgNeeded_def tdDecision_def finalityGate_def Float64_def
  CommonAncestor_def reduceTo.simps lockstep.simps

lemma lockstep_errors_aux:
  "lockstep H c oldH newH = Some y \<Longrightarrow>
     \<forall>h e. y = Inr (h, Some e) \<longrightarrow> e = InvalidOldHChain \<or> e = InvalidNewHChain"
proof (erule lockstep.raw_induct [rotated], goal_cases)
  case (1 ls H c oldH newH y)
  then show ?case
    by (auto split: if_splits option.splits)
qed

lemma lockstep_errors:
  assumes "lockstep H c oldH newH = Some (Inr (h, Some e))"
  shows "e = InvalidOldHChain \<or> e = InvalidNewHChain"
  using lockstep_errors_aux [OF assms] by blast

lemma CommonAncestor_errors:
  assumes "CommonAncestor H c cur hdr = Some (Inr (h, Some e))"
  shows "e = InvalidOldHChain \<or> e = InvalidNewHChain"
  using assms unfolding CommonAncestor_def
  by (auto split: if_splits option.splits dest: lockstep_errors)

lemma finalityGate_errors:
  assumes "finalityGate H ecbp f rnd cur ext = Some (Inr ((b, Some e), r))"
  shows "e = InvalidOldHChain \<or> e = InvalidNewHChain"
  using assms unfolding finalityGate_def
  by (auto split: if_splits option.splits sum.splits dest: CommonAncestor_errors)

lemma finalityGate_rand:
  assumes "finalityGate H ecbp f rnd cur ext = Some (Inr (x, r))"
  shows "r = rnd"
  using assms unfolding finalityGate_def
  by (auto split: if_splits option.splits sum.splits)

text \<open>
  C3. When both total difficulties resolve, the terminal total difficulty is set and the
  external header's total difficulty is at or beyond it, \<open>ReorgNeeded\<close> returns
  \<open>(true, nil)\<close>, whatever the local difficulty, the heights and the tie-break
  predicate are; the random source is left as it was.
\<close>

theorem ReorgNeeded_terminal_total_difficulty:
  assumes "GetTd (chain f) (H (Some current)) (Number current) = Some localTD"
      and "GetTd (chain f) (H (Some extern)) (Number extern) = Some externTd"
      and "GetEthashTerminalTotalDifficulty (Config (chain f)) = Some ttd"
      and "ttd \<le> externTd"
  shows "ReorgNeeded H ecbp f rnd current extern = Some (Inr ((True, None), rnd))"
  using assms by (simp add: ReorgNeeded_def)

theorem ReorgNeeded_terminal_total_difficulty_witness:
  "ReorgNeeded ex_hash ex_reject
      \<lparr>chain = ex_reader [ex_header 0 0 0] [((1011, 1), 9), ((1016, 1), 7)] (Some 7) (Some True),
       preserve = Some (\<lambda>h. True)\<rparr>
      (ex_rand (1 / 10)) (ex_header 1 1 0) (ex_header 1 1 5)
    = Some (Inr ((True, None), ex_rand (1 / 10)))"
  by (rule ReorgNeeded_terminal_total_difficulty [where localTD = 9 and externTd = 7 and ttd = 7])
     (simp_all add: ex_defs)

text \<open>
  C6. \<open>ReorgNeeded\<close> returns the error "missing td" if and only if the total
  difficulty of the current or of the external header does not resolve; it then returns
  \<open>false\<close> with that error before anything is compared, and draws nothing from the
  random source.
\<close>

theorem ReorgNeeded_missing_td:
  "((\<exists>b r. ReorgNeeded H ecbp f rnd current extern = Some (Inr ((b, Some MissingTd), r)))
      \<longleftrightarrow> (GetTd (chain f) (H (Some current)) (Number current) = None
           \<or> GetTd (chain f) (H (Some extern)) (Number extern) = None))
   \<and> (GetTd (chain f) (H (Some current)) (Number current) = None
           \<or> GetTd (chain f) (H (Some extern)) (Number extern) = None
       \<longrightarrow> ReorgNeeded H ecbp f rnd current extern = Some (Inr ((False, Some MissingTd), rnd)))"
  unfolding ReorgNeeded_def
  by (auto split: option.splits if_splits prod.splits simp: Let_def dest: finalityGate_errors)

theorem ReorgNeeded_missing_td_witness:
  "GetTd (ex_reader [ex_header 0 0 0] [((1011, 1), 9)] None None)
       (ex_hash (Some (ex_header 1 1 5))) (Number (ex_header 1 1 5)) = None
   \<and> ReorgNeeded ex_hash ex_reject
        \<lparr>chain = ex_reader [ex_header 0 0 0] [((1011, 1), 9)] None None, preserve = None\<rparr>
        (ex_rand (1 / 10)) (ex_header 1 1 0) (ex_header 1 1 5)
      = Some (Inr ((False, Some MissingTd), ex_rand (1 / 10)))"
  using ReorgNeeded_missing_td [of ex_hash ex_reject
      "\<lparr>chain = ex_reader [ex_header 0 0 0] [((1011, 1), 9)] None None, preserve = None\<rparr>"
      "ex_rand (1 / 10)" "ex_header 1 1 0" "ex_header 1 1 5"]
  by (simp add: ex_defs)

lemma finalityGate_inactive:
  assumes "AsBlockChain (chain f) = Some False
         \<or> \<not> IsEnabled (Config (chain f)) (GetECBP1100Transition (Config (chain f))) (uint (Number current))"
  shows "finalityGate H ecbp f r current extern = Some (Inr ((True, None), r))"
  using assms by (auto simp: finalityGate_def)

lemma finalityGate_false:
  assumes "finalityGate H ecbp f rnd current extern = Some (Inr ((False, e), r))"
  shows "e = None \<and> (\<exists>ch. CommonAncestor H (chain f) current extern = Some (Inr (ch, None))
                         \<and> ecbp ch current extern (GetTd (chain f)) \<noteq> None)"
  using assms unfolding finalityGate_def
  by (auto split: if_splits option.splits sum.splits)

lemma ancestor_add:
  "ancestor c h (i + j) = (case ancestor c h i of None \<Rightarrow> None | Some z \<Rightarrow> ancestor c z j)"
  by (induction i arbitrary: h) (auto split: option.splits)

lemma descends_add:
  "descends c h (i + j) \<longleftrightarrow> descends c h i \<and> (\<forall>z. ancestor c h i = Some z \<longrightarrow> descends c z j)"
  by (induction i arbitrary: h) (auto split: option.splits)

lemma descends_ancestor:
  "descends c h k \<Longrightarrow> \<exists>z. ancestor c h k = Some z"
  by (induction k arbitrary: h) (auto split: option.splits)

lemma descends_number:
  "descends c h k \<Longrightarrow> ancestor c h k = Some z \<Longrightarrow> unat (Number h) = unat (Number z) + k"
proof (induction k arbitrary: h)
  case 0
  then show ?case by simp
next
  case (Suc k)
  from Suc.prems obtain p where p: "GetHeader c (ParentHash h) (Number h - 1) = Some p"
    and np: "Number p = Number h - 1" and nz: "Number h \<noteq> 0" and d: "descends c p k"
    by (auto split: option.splits)
  from Suc.prems(2) p have "ancestor c p k = Some z" by simp
  from Suc.IH [OF d this] have "unat (Number p) = unat (Number z) + k" .
  moreover have "unat (Number h - 1) = unat (Number h) - 1"
    using nz by (simp add: unat_minus_one)
  moreover have "unat (Number h) \<noteq> 0" using nz by (simp add: unat_eq_0)
  ultimately show ?case using np by simp
qed

lemma reduceTo_descends:
  "descends c h k \<Longrightarrow> ancestor c h k = Some z \<Longrightarrow> Number z = n
     \<Longrightarrow> reduceTo c (Some h) n = Some (Some z)"
proof (induction k arbitrary: h)
  case 0
  then show ?case by (subst reduceTo.simps) simp
next
  case (Suc k)
  from Suc.prems obtain p where p: "GetHeader c (ParentHash h) (Number h - 1) = Some p"
    and d: "descends c p k"
    by (auto split: option.splits)
  from Suc.prems(2) p have a: "ancestor c p k = Some z" by simp
  from descends_number [OF Suc.prems(1,2)] Suc.prems(3) have "Number h \<noteq> n" by auto
  then have "reduceTo c (Some h) n = reduceTo c (Some p) n"
    using p by (subst reduceTo.simps) simp
  with Suc.IH [OF d a Suc.prems(3)] show ?case by simp
qed

lemma lockstep_descends:
  "descends c x k \<Longrightarrow> descends c y k
    \<Longrightarrow> ancestor c x k = Some u \<Longrightarrow> ancestor c y k = Some v \<Longrightarrow> H (Some u) = H (Some v)
    \<Longrightarrow> (\<forall>i<k. \<forall>s t. ancestor c x i = Some s \<longrightarrow> ancestor c y i = Some t \<longrightarrow> H (Some s) \<noteq> H (Some t))
    \<Longrightarrow> lockstep H c (Some x) (Some y) = Some (Inr (Some u, None))"
proof (induction k arbitrary: x y)
  case 0
  then show ?case by (subst lockstep.simps) simp
next
  case (Suc k)
  from Suc.prems(1) obtain p where p: "GetHeader c (ParentHash x) (Number x - 1) = Some p"
    and dp: "descends c p k"
    by (auto split: option.splits)
  from Suc.prems(2) obtain q where q: "GetHeader c (ParentHash y) (Number y - 1) = Some q"
    and dq: "descends c q k"
    by (auto split: option.splits)
  from Suc.prems(3) p have ap: "ancestor c p k = Some u" by simp
  from Suc.prems(4) q have aq: "ancestor c q k = Some v" by simp
  have ne: "H (Some x) \<noteq> H (Some y)"
    using Suc.prems(6) by (auto dest: spec [of _ 0])
  have rest: "\<forall>i<k. \<forall>s t. ancestor c p i = Some s \<longrightarrow> ancestor c q i = Some t \<longrightarrow> H (Some s) \<noteq> H (Some t)"
  proof (intro allI impI)
    fix i s t assume "i < k" "ancestor c p i = Some s" "ancestor c q i = Some t"
    then have "Suc i < Suc k" "ancestor c x (Suc i) = Some s" "ancestor c y (Suc i) = Some t"
      using p q by simp_all
    with Suc.prems(6) show "H (Some s) \<noteq> H (Some t)" by blast
  qed
  have "lockstep H c (Some x) (Some y) = lockstep H c (Some p) (Some q)"
    using ne p q by (subst lockstep.simps) simp
  with Suc.IH [OF dp dq ap aq Suc.prems(5) rest] show ?case by simp
qed

text \<open>
  C1 (as amended). With equal total difficulties that resolve, equal heights and the
  terminal total difficulty not reached: if the current header is preferred, also when
  the external one is preferred too, \<open>ReorgNeeded\<close> returns \<open>(false, nil)\<close> and
  draws nothing; if only the external header is preferred, a reorg is indicated without
  a draw; if neither is preferred, or no predicate is installed, one value is drawn
  and a reorg is indicated exactly when it is below one half. An indicated reorg is
  passed to the deep-reorg check, which returns \<open>(true, nil)\<close> whenever it is not
  active.
\<close>

theorem ReorgNeeded_tie_break:
  assumes "GetTd (chain f) (H (Some current)) (Number current) = Some td"
      and "GetTd (chain f) (H (Some extern)) (Number extern) = Some td"
      and "Number extern = Number current"
      and "case GetEthashTerminalTotalDifficulty (Config (chain f)) of None \<Rightarrow> True | Some ttd \<Rightarrow> td < ttd"
  shows "(\<forall>p. preserve f = Some p \<and> p current
            \<longrightarrow> ReorgNeeded H ecbp f rnd current extern = Some (Inr ((False, None), rnd)))
       \<and> (\<forall>p. preserve f = Some p \<and> \<not> p current \<and> p extern
            \<longrightarrow> ReorgNeeded H ecbp f rnd current extern = finalityGate H ecbp f rnd current extern)
       \<and> (preserve f = None \<or> (\<exists>p. preserve f = Some p \<and> \<not> p current \<and> \<not> p extern)
            \<longrightarrow> ReorgNeeded H ecbp f rnd current extern =
                  (if fst (Float64 rnd) < 1 / 2
                   then finalityGate H ecbp f (snd (Float64 rnd)) current extern
                   else Some (Inr ((False, None), snd (Float64 rnd)))))
       \<and> (AsBlockChain (chain f) = Some False
           \<or> \<not> IsEnabled (Config (chain f)) (GetECBP1100Transition (Config (chain f))) (uint (Number current))
            \<longrightarrow> (\<forall>r. finalityGate H ecbp f r current extern = Some (Inr ((True, None), r))))"
proof -
  have nt: "\<not> (case GetEthashTerminalTotalDifficulty (Config (chain f)) of None \<Rightarrow> False | Some ttd \<Rightarrow> ttd \<le> td)"
    using assms(4) by (auto split: option.splits)
  have R: "ReorgNeeded H ecbp f rnd current extern =
            (let (reorg, rnd') = tdDecision f rnd td td current extern
             in if \<not> reorg then Some (Inr ((False, None), rnd'))
                else finalityGate H ecbp f rnd' current extern)"
    using assms(1,2) nt by (simp add: ReorgNeeded_def)
  show ?thesis
    unfolding R
    using assms(3) finalityGate_inactive [of f current H ecbp _ extern]
    by (auto simp: tdDecision_def split_def Let_def)
qed

theorem ReorgNeeded_tie_break_witness:
  "ReorgNeeded ex_hash ex_reject
        (ex_fc [((1011, 1), 9), ((1016, 1), 9)] None (Some False) None)
        (ex_rand (9 / 10)) (ex_header 1 1 0) (ex_header 1 1 5)
      = Some (Inr ((False, None), (ex_rand (9 / 10))\<lparr>pos := 1\<rparr>))"
  using ReorgNeeded_tie_break [of "ex_fc [((1011, 1), 9), ((1016, 1), 9)] None (Some False) None" ex_hash
              "ex_header 1 1 0" 9 "ex_header 1 1 5" ex_reject "ex_rand (9 / 10)"]
  by (simp add: ex_fc_def ex_defs Float64_def)

text \<open>
  C1 as stated fails: with both headers preferred the result is \<open>false\<close> and the
  source is not drawn from, although the next draw is below one half (the same input
  without a predicate draws it and reorganizes).
\<close>

theorem ReorgNeeded_both_preferred_counterexample:
  "ex_prefer_all (ex_header 1 1 0)
   \<and> ex_prefer_all (ex_header 1 1 5)
   \<and> fst (Float64 (ex_rand (1 / 10))) < 1 / 2
   \<and> ReorgNeeded ex_hash ex_reject
        (ex_fc [((1011, 1), 9), ((1016, 1), 9)] None (Some False) (Some ex_prefer_all))
        (ex_rand (1 / 10)) (ex_header 1 1 0) (ex_header 1 1 5)
      = Some (Inr ((False, None), ex_rand (1 / 10)))
   \<and> ReorgNeeded ex_hash ex_reject
        (ex_fc [((1011, 1), 9), ((1016, 1), 9)] None (Some False) None)
        (ex_rand (1 / 10)) (ex_header 1 1 0) (ex_header 1 1 5)
      = Some (Inr ((True, None), (ex_rand (1 / 10))\<lparr>pos := 1\<rparr>))"
  by (simp add: ex_run ex_prefer_all_def)

text \<open>
  C2 (as amended). When both total difficulties resolve and the external one is
  strictly greater, \<open>ReorgNeeded\<close> never draws from the random source, and it returns
  \<open>(true, nil)\<close> in each of these cases: the terminal-total-difficulty rule triggers;
  the deep-reorg check is not active (the reader is a \<open>BlockChain\<close> with artificial
  finality disabled, or ECBP1100 is not enabled at the current height); the common
  ancestor is found and \<open>ecbp1100\<close> accepts the reorg. When the check is active (and
  the terminal-total-difficulty rule does not trigger), it returns \<open>(false, nil)\<close> if
  the common ancestor walk returns without error and \<open>ecbp1100\<close> rejects the reorg,
  and \<open>true\<close> together with the error if the walk returns an error; a panic of the
  walk, or a walk that does not end, is then that of \<open>ReorgNeeded\<close>. It returns
  \<open>false\<close> in no other case.
\<close>

theorem ReorgNeeded_higher_td:
  assumes "GetTd (chain f) (H (Some current)) (Number current) = Some localTD"
      and "GetTd (chain f) (H (Some extern)) (Number extern) = Some externTd"
      and "localTD < externTd"
  shows "(AsBlockChain (chain f) = Some False
           \<or> \<not> IsEnabled (Config (chain f)) (GetECBP1100Transition (Config (chain f))) (uint (Number current))
          \<longrightarrow> ReorgNeeded H ecbp f rnd current extern = Some (Inr ((True, None), rnd)))
       \<and> (\<forall>b e r. ReorgNeeded H ecbp f rnd current extern = Some (Inr ((b, e), r))
            \<longrightarrow> r = rnd
              \<and> (\<not> b \<longrightarrow> e = None
                    \<and> (\<exists>ch. CommonAncestor H (chain f) current extern = Some (Inr (ch, None))
                            \<and> ecbp ch current extern (GetTd (chain f)) \<noteq> None)))
       \<and> ((case GetEthashTerminalTotalDifficulty (Config (chain f)) of
               None \<Rightarrow> False | Some ttd \<Rightarrow> ttd \<le> externTd)
          \<longrightarrow> ReorgNeeded H ecbp f rnd current extern = Some (Inr ((True, None), rnd)))
       \<and> (\<forall>ch. CommonAncestor H (chain f) current extern = Some (Inr (Some ch, None))
                 \<and> ecbp (Some ch) current extern (GetTd (chain f)) = None
            \<longrightarrow> ReorgNeeded H ecbp f rnd current extern = Some (Inr ((True, None), rnd)))
       \<and> (\<not> (case GetEthashTerminalTotalDifficulty (Config (chain f)) of
                  None \<Rightarrow> False | Some ttd \<Rightarrow> ttd \<le> externTd)
            \<and> AsBlockChain (chain f) \<noteq> Some False
            \<and> IsEnabled (Config (chain f)) (GetECBP1100Transition (Config (chain f))) (uint (Number current))
          \<longrightarrow> (\<forall>ch x. CommonAncestor H (chain f) current extern = Some (Inr (ch, None))
                        \<and> ecbp ch current extern (GetTd (chain f)) = Some x
                   \<longrightarrow> ReorgNeeded H ecbp f rnd current extern = Some (Inr ((False, None), rnd)))
              \<and> (\<forall>ch err. CommonAncestor H (chain f) current extern = Some (Inr (ch, Some err))
                   \<longrightarrow> ReorgNeeded H ecbp f rnd current extern = Some (Inr ((True, Some err), rnd)))
              \<and> (\<forall>p. CommonAncestor H (chain f) current extern = Some (Inl p)
                   \<longrightarrow> ReorgNeeded H ecbp f rnd current extern = Some (Inl p))
              \<and> (CommonAncestor H (chain f) current extern = None
                   \<longrightarrow> ReorgNeeded H ecbp f rnd current extern = None)
              \<and> (CommonAncestor H (chain f) current extern = Some (Inr (None, None))
                     \<and> ecbp None current extern (GetTd (chain f)) = None
                   \<longrightarrow> ReorgNeeded H ecbp f rnd current extern = Some (Inl NilDereference)))"
proof -
  let ?ttd = "case GetEthashTerminalTotalDifficulty (Config (chain f)) of
                None \<Rightarrow> False | Some ttd \<Rightarrow> ttd \<le> externTd"
  let ?R = "ReorgNeeded H ecbp f rnd current extern"
  let ?G = "finalityGate H ecbp f rnd current extern"
  let ?CA = "CommonAncestor H (chain f) current extern"
  let ?active = "AsBlockChain (chain f) \<noteq> Some False
            \<and> IsEnabled (Config (chain f)) (GetECBP1100Transition (Config (chain f))) (uint (Number current))"
  have td: "tdDecision f rnd localTD externTd current extern = (True, rnd)"
    using assms(3) by (simp add: tdDecision_def)
  have R: "?R = (if ?ttd then Some (Inr ((True, None), rnd)) else ?G)"
    using assms(1,2) td by (simp add: ReorgNeeded_def)
  have c1: "AsBlockChain (chain f) = Some False
           \<or> \<not> IsEnabled (Config (chain f)) (GetECBP1100Transition (Config (chain f))) (uint (Number current))
          \<longrightarrow> ?R = Some (Inr ((True, None), rnd))"
    using finalityGate_inactive [of f current H ecbp rnd extern] by (auto simp: R)
  have c2: "r = rnd
              \<and> (\<not> b \<longrightarrow> e = None
                    \<and> (\<exists>ch. ?CA = Some (Inr (ch, None))
                            \<and> ecbp ch current extern (GetTd (chain f)) \<noteq> None))"
    if g: "?R = Some (Inr ((b, e), r))" for b e r
  proof (cases ?ttd)
    case True
    with g show ?thesis by (simp add: R)
  next
    case False
    with g have g': "?G = Some (Inr ((b, e), r))" by (simp add: R)
    show ?thesis
    proof (rule conjI, rule finalityGate_rand [OF g'], rule impI)
      assume "\<not> b"
      with g' have "?G = Some (Inr ((False, e), r))" by simp
      from finalityGate_false [OF this]
      show "e = None \<and> (\<exists>ch. ?CA = Some (Inr (ch, None))
                            \<and> ecbp ch current extern (GetTd (chain f)) \<noteq> None)" .
    qed
  qed
  have c3: "?ttd \<longrightarrow> ?R = Some (Inr ((True, None), rnd))"
    by (simp add: R)
  have c4: "?R = Some (Inr ((True, None), rnd))"
    if "?CA = Some (Inr (Some ch, None)) \<and> ecbp (Some ch) current extern (GetTd (chain f)) = None" for ch
    using that by (simp add: R finalityGate_def)
  have G: "?G = (case ?CA of
                   None \<Rightarrow> None
                 | Some (Inl p) \<Rightarrow> Some (Inl p)
                 | Some (Inr (commonHeader, Some err)) \<Rightarrow> Some (Inr ((True, Some err), rnd))
                 | Some (Inr (commonHeader, None)) \<Rightarrow>
                     (case ecbp commonHeader current extern (GetTd (chain f)) of
                        Some e \<Rightarrow> Some (Inr ((False, None), rnd))
                      | None \<Rightarrow>
                          (case commonHeader of
                             None \<Rightarrow> Some (Inl NilDereference)
                           | Some ch \<Rightarrow> Some (Inr ((True, None), rnd)))))"
    if "?active"
    using that by (simp add: finalityGate_def)
  have c5: "(\<forall>ch x. ?CA = Some (Inr (ch, None)) \<and> ecbp ch current extern (GetTd (chain f)) = Some x
                   \<longrightarrow> ?R = Some (Inr ((False, None), rnd)))
              \<and> (\<forall>ch err. ?CA = Some (Inr (ch, Some err))
                   \<longrightarrow> ?R = Some (Inr ((True, Some err), rnd)))
              \<and> (\<forall>p. ?CA = Some (Inl p) \<longrightarrow> ?R = Some (Inl p))
              \<and> (?CA = None \<longrightarrow> ?R = None)
              \<and> (?CA = Some (Inr (None, None)) \<and> ecbp None current extern (GetTd (chain f)) = None
                   \<longrightarrow> ?R = Some (Inl NilDereference))"
    if "\<not> ?ttd \<and> ?active"
  proof -
    from that have "?R = ?G" by (simp add: R)
    moreover from that have "?active" by blast
    ultimately show ?thesis by (simp add: G)
  qed
  from c1 c2 c3 c4 c5 show ?thesis by blast
qed

theorem ReorgNeeded_higher_td_witness:
  "ReorgNeeded ex_hash ex_reject
        (ex_fc [((1011, 1), 9), ((1016, 1), 12)] None (Some False) None)
        (ex_rand (1 / 10)) (ex_header 1 1 0) (ex_header 1 1 5)
      = Some (Inr ((True, None), ex_rand (1 / 10)))
   \<and> ReorgNeeded ex_hash ex_accept
        (ex_fc [((1011, 1), 9), ((1016, 1), 12)] None (Some True) None)
        (ex_rand (1 / 10)) (ex_header 1 1 0) (ex_header 1 1 5)
      = Some (Inr ((True, None), ex_rand (1 / 10)))
   \<and> ReorgNeeded ex_hash ex_reject
        (ex_fc [((1011, 1), 9), ((1016, 1), 12)] None (Some True) None)
        (ex_rand (1 / 10)) (ex_header 1 1 0) (ex_header 1 1 5)
      = Some (Inr ((False, None), ex_rand (1 / 10)))"
proof -
  let ?off = "ex_fc [((1011, 1), 9), ((1016, 1), 12)] None (Some False) None"
  let ?on = "ex_fc [((1011, 1), 9), ((1016, 1), 12)] None (Some True) None"
  have ca: "CommonAncestor ex_hash (chain ?on) (ex_header 1 1 0) (ex_header 1 1 5)
              = Some (Inr (Some (ex_header 0 0 0), None))"
    by (simp add: ex_fc_def ex_defs CommonAncestor_def reduceTo.simps lockstep.simps)
  have a: "ReorgNeeded ex_hash ex_reject ?off (ex_rand (1 / 10)) (ex_header 1 1 0) (ex_header 1 1 5)
            = Some (Inr ((True, None), ex_rand (1 / 10)))"
    using ReorgNeeded_higher_td [of ?off ex_hash "ex_header 1 1 0" 9 "ex_header 1 1 5" 12
              ex_reject "ex_rand (1 / 10)"]
    by (simp add: ex_fc_def ex_defs)
  have b: "ReorgNeeded ex_hash ex_accept ?on (ex_rand (1 / 10)) (ex_header 1 1 0) (ex_header 1 1 5)
            = Some (Inr ((True, None), ex_rand (1 / 10)))"
    using ReorgNeeded_higher_td [of ?on ex_hash "ex_header 1 1 0" 9 "ex_header 1 1 5" 12
              ex_accept "ex_rand (1 / 10)"] ca
    by (simp add: ex_fc_def ex_defs ex_accept_def)
  have c: "ReorgNeeded ex_hash ex_reject ?on (ex_rand (1 / 10)) (ex_header 1 1 0) (ex_header 1 1 5)
            = Some (Inr ((False, None), ex_rand (1 / 10)))"
    using ReorgNeeded_higher_td [of ?on ex_hash "ex_header 1 1 0" 9 "ex_header 1 1 5" 12
              ex_reject "ex_rand (1 / 10)"] ca
    by (simp add: ex_fc_def ex_defs)
  from a b c show ?thesis by blast
qed

text \<open>
  C2 as stated fails: with artificial finality enabled, ECBP1100 active and a rejecting
  \<open>ecbp1100\<close>, a strictly greater external total difficulty yields \<open>false\<close>.
\<close>

theorem ReorgNeeded_higher_td_counterexample:
  "GetTd (chain (ex_fc [((1011, 1), 9), ((1016, 1), 12)] None (Some True) None))
       (ex_hash (Some (ex_header 1 1 0))) (Number (ex_header 1 1 0)) = Some 9
   \<and> GetTd (chain (ex_fc [((1011, 1), 9), ((1016, 1), 12)] None (Some True) None))
       (ex_hash (Some (ex_header 1 1 5))) (Number (ex_header 1 1 5)) = Some 12
   \<and> ReorgNeeded ex_hash ex_reject
        (ex_fc [((1011, 1), 9), ((1016, 1), 12)] None (Some True) None)
        (ex_rand (1 / 10)) (ex_header 1 1 0) (ex_header 1 1 5)
      = Some (Inr ((False, None), ex_rand (1 / 10)))"
  by (simp add: ex_run)

text \<open>
  C4. A missing parent during the height-equalization walk of the taller chain is
  claimed to give an error. In the code the walk ends with a nil header, which the
  lockstep loop then dereferences: the header at height 2 below has no stored parent,
  and \<open>CommonAncestor\<close> panics.
\<close>

theorem CommonAncestor_missing_parent_panics: 
  "GetHeader (ex_reader [ex_header 0 0 0] [] None None)
       (ParentHash (ex_header 1011 2 0)) (Number (ex_header 1011 2 0) - 1) = None
   \<and> CommonAncestor ex_hash (ex_reader [ex_header 0 0 0] [] None None)
        (ex_header 1011 2 0) (ex_header 1 1 5) = Some (Inl NilDereference)"
  by (simp add: ex_run)

text \<open>
  C5. Let the chain of \<open>current\<close> reach, after \<open>a\<close> parent lookups, and the chain
  of \<open>hdr\<close>, after \<open>b\<close> parent lookups, a header of the same height and the same
  hash, all these lookups succeeding with heights going down by one, and let the two
  chains have different hashes at every height above that which both reach. Then
  \<open>CommonAncestor\<close> returns that shared header, without error.
\<close>

theorem CommonAncestor_fork_point:
  assumes dc: "descends c current a" and dh: "descends c hdr b"
      and ac: "ancestor c current a = Some x" and ah: "ancestor c hdr b = Some y"
      and same_height: "Number x = Number y"
      and shared: "H (Some x) = H (Some y)"
      and diverge: "\<forall>i<a. \<forall>j<b. a - i = b - j \<longrightarrow>
             (\<forall>s t. ancestor c current i = Some s \<longrightarrow> ancestor c hdr j = Some t
                     \<longrightarrow> H (Some s) \<noteq> H (Some t))"
  shows "CommonAncestor H c current hdr = Some (Inr (Some x, None))"
proof -
  have nc: "unat (Number current) = unat (Number x) + a" by (rule descends_number [OF dc ac])
  have nh: "unat (Number hdr) = unat (Number x) + b"
    using descends_number [OF dh ah] same_height by simp
  show ?thesis
  proof (cases "b < a")
    case True
    define d where "d = a - b"
    have a: "a = d + b" using True by (simp add: d_def)
    from dc have d1: "descends c current d" and d2: "\<forall>z. ancestor c current d = Some z \<longrightarrow> descends c z b"
      unfolding a descends_add by simp_all
    from descends_ancestor [OF d1] obtain m where m: "ancestor c current d = Some m" by blast
    with ac have am: "ancestor c m b = Some x" unfolding a ancestor_add by simp
    from d2 m have dm: "descends c m b" by simp
    have "unat (Number m) = unat (Number x) + b" by (rule descends_number [OF dm am])
    with nh have nm: "Number m = Number hdr" by (simp add: word_unat_eq_iff)
    have gt: "Number hdr < Number current"
      using nc nh True by (simp add: word_less_nat_alt)
    have r: "reduceTo c (Some current) (Number hdr) = Some (Some m)"
      by (rule reduceTo_descends [OF d1 m nm])
    have div: "\<forall>i<b. \<forall>s t. ancestor c m i = Some s \<longrightarrow> ancestor c hdr i = Some t \<longrightarrow> H (Some s) \<noteq> H (Some t)"
    proof (intro allI impI)
      fix i s t assume i: "i < b" and s: "ancestor c m i = Some s" and t: "ancestor c hdr i = Some t"
      from s m have "ancestor c current (d + i) = Some s" by (simp add: ancestor_add)
      moreover have "d + i < a" "a - (d + i) = b - i" using i a by simp_all
      ultimately show "H (Some s) \<noteq> H (Some t)" using diverge i t by blast
    qed
    have "lockstep H c (Some m) (Some hdr) = Some (Inr (Some x, None))"
      by (rule lockstep_descends [OF dm dh am ah shared div])
    then show ?thesis using gt r by (simp add: CommonAncestor_def)
  next
    case False
    define d where "d = b - a"
    have b: "b = d + a" using False by (simp add: d_def)
    from dh have d1: "descends c hdr d" and d2: "\<forall>z. ancestor c hdr d = Some z \<longrightarrow> descends c z a"
      unfolding b descends_add by simp_all
    from descends_ancestor [OF d1] obtain m where m: "ancestor c hdr d = Some m" by blast
    with ah have am: "ancestor c m a = Some y" unfolding b ancestor_add by simp
    from d2 m have dm: "descends c m a" by simp
    have "unat (Number m) = unat (Number y) + a" by (rule descends_number [OF dm am])
    with nc same_height have nm: "Number m = Number current" by (simp add: word_unat_eq_iff)
    have ngt: "\<not> Number hdr < Number current"
      using nc nh False by (simp add: word_less_nat_alt)
    have r: "reduceTo c (Some hdr) (Number current) = Some (Some m)"
      by (rule reduceTo_descends [OF d1 m nm])
    have div: "\<forall>i<a. \<forall>s t. ancestor c current i = Some s \<longrightarrow> ancestor c m i = Some t \<longrightarrow> H (Some s) \<noteq> H (Some t)"
    proof (intro allI impI)
      fix i s t assume i: "i < a" and s: "ancestor c current i = Some s" and t: "ancestor c m i = Some t"
      from t m have "ancestor c hdr (d + i) = Some t" by (simp add: ancestor_add)
      moreover have "d + i < b" "a - i = b - (d + i)" using i b by simp_all
      ultimately show "H (Some s) \<noteq> H (Some t)" using diverge i s by blast
    qed
    have "lockstep H c (Some current) (Some m) = Some (Inr (Some x, None))"
      by (rule lockstep_descends [OF dc dm ac am shared div])
    then show ?thesis using ngt r by (simp add: CommonAncestor_def)
  qed
qed

theorem CommonAncestor_fork_point_witness:
  "descends (ex_reader ex_store [] None None) (ex_header 1011021 3 0) 2
   \<and> descends (ex_reader ex_store [] None None) (ex_header 1011 2 5) 1
   \<and> ancestor (ex_reader ex_store [] None None) (ex_header 1011021 3 0) 2 = Some (ex_header 1 1 0)
   \<and> ancestor (ex_reader ex_store [] None None) (ex_header 1011 2 5) 1 = Some (ex_header 1 1 0)
   \<and> CommonAncestor ex_hash (ex_reader ex_store [] None None) (ex_header 1011021 3 0) (ex_header 1011 2 5)
       = Some (Inr (Some (ex_header 1 1 0), None))"
proof -
  let ?c = "ex_reader ex_store [] None None"
  have d1: "descends ?c (ex_header 1011021 3 0) 2"
    by code_simp
  have d2: "descends ?c (ex_header 1011 2 5) 1"
    by (simp add: ex_store_def ex_defs)
  have a1: "ancestor ?c (ex_header 1011021 3 0) 2 = Some (ex_header 1 1 0)"
    by code_simp
  have a2: "ancestor ?c (ex_header 1011 2 5) 1 = Some (ex_header 1 1 0)"
    by (simp add: ex_store_def ex_defs)
  have dv: "\<forall>i<2. \<forall>j<1. 2 - i = 1 - j \<longrightarrow>
             (\<forall>s t. ancestor ?c (ex_header 1011021 3 0) i = Some s \<longrightarrow> ancestor ?c (ex_header 1011 2 5) j = Some t
                     \<longrightarrow> ex_hash (Some s) \<noteq> ex_hash (Some t))"
  proof (intro allI impI)
    fix i j :: nat and s t
    assume "i < 2" "j < 1" "2 - i = 1 - j"
    then have ij: "i = 1" "j = 0" by auto
    assume "ancestor ?c (ex_header 1011021 3 0) i = Some s" "ancestor ?c (ex_header 1011 2 5) j = Some t"
    then have "s = ex_header 1011 2 0" "t = ex_header 1011 2 5"
      unfolding ij by (simp_all add: ex_store_def ex_defs)
    then show "ex_hash (Some s) \<noteq> ex_hash (Some t)" by (simp add: ex_defs)
  qed
  from CommonAncestor_fork_point [OF d1 d2 a1 a2 refl refl dv] d1 d2 a1 a2 show ?thesis by simp
qed

text \<open>
  C10. When the terminal-total-difficulty rule triggers, the result is \<open>(true, nil)\<close>
  with the random source untouched, whatever stands in for the parts the deep-reorg
  check reads: the header lookup, the artificial-finality switch, the ECBP1100
  activation and \<open>ecbp1100\<close> itself. So the check is not consulted, even where it
  is enabled and would have withheld the reorg.
\<close>

theorem ReorgNeeded_terminal_skips_gate:
  assumes "GetTd (chain f) (H (Some current)) (Number current) = Some localTD"
      and "GetTd (chain f) (H (Some extern)) (Number extern) = Some externTd"
      and "GetEthashTerminalTotalDifficulty (Config (chain f)) = Some ttd"
      and "ttd \<le> externTd"
  shows "ReorgNeeded H ecbp'
           (f\<lparr>chain := (chain f)\<lparr>GetHeader := gh, AsBlockChain := af,
                 Config := (Config (chain f))\<lparr>GetECBP1100Transition := tr, IsEnabled := en\<rparr>\<rparr>\<rparr>)
           rnd current extern = Some (Inr ((True, None), rnd))"
  using assms by (simp add: ReorgNeeded_def)

theorem ReorgNeeded_terminal_skips_gate_witness:
  "finalityGate ex_hash ex_reject
        (ex_fc [((1011, 1), 9), ((1016, 1), 7)] (Some 7) (Some True) None)
        (ex_rand (1 / 10)) (ex_header 1 1 0) (ex_header 1 1 5)
      = Some (Inr ((False, None), ex_rand (1 / 10)))
   \<and> ReorgNeeded ex_hash ex_reject
        (ex_fc [((1011, 1), 9), ((1016, 1), 7)] (Some 7) (Some True) None)
        (ex_rand (1 / 10)) (ex_header 1 1 0) (ex_header 1 1 5)
      = Some (Inr ((True, None), ex_rand (1 / 10)))"
proof
  show "finalityGate ex_hash ex_reject
        (ex_fc [((1011, 1), 9), ((1016, 1), 7)] (Some 7) (Some True) None)
        (ex_rand (1 / 10)) (ex_header 1 1 0) (ex_header 1 1 5)
      = Some (Inr ((False, None), ex_rand (1 / 10)))"
    by (simp add: ex_run)
  have "ReorgNeeded ex_hash ex_reject
        ((ex_fc [((1011, 1), 9), ((1016, 1), 7)] (Some 7) None None)
          \<lparr>chain := (chain (ex_fc [((1011, 1), 9), ((1016, 1), 7)] (Some 7) None None))
             \<lparr>GetHeader := GetHeader (ex_reader [ex_header 0 0 0] [] None None),
              AsBlockChain := Some True,
              Config := (Config (chain (ex_fc [((1011, 1), 9), ((1016, 1), 7)] (Some 7) None None)))
                 \<lparr>GetECBP1100Transition := Some 0, IsEnabled := IsEnabled (ex_config None)\<rparr>\<rparr>\<rparr>)
        (ex_rand (1 / 10)) (ex_header 1 1 0) (ex_header 1 1 5)
      = Some (Inr ((True, None), ex_rand (1 / 10)))"
    by (rule ReorgNeeded_terminal_skips_gate [where localTD = 9 and externTd = 7 and ttd = 7])
       (simp_all add: ex_defs ex_fc_def)
  then show "ReorgNeeded ex_hash ex_reject
        (ex_fc [((1011, 1), 9), ((1016, 1), 7)] (Some 7) (Some True) None)
        (ex_rand (1 / 10)) (ex_header 1 1 0) (ex_header 1 1 5)
      = Some (Inr ((True, None), ex_rand (1 / 10)))"
    by (simp add: ex_defs ex_fc_def)
qed

section \<open>Properties of the wire encoding\<close>

lemma putint_0: "putint 0 = []"
  by (simp add: putint.simps)

lemma putint_numeral:
  "putint (numeral k) = putint (numeral k div 256) @ [of_nat (numeral k mod 256)]"
  using putint.simps [of "numeral k"] by simp

lemma readUintBE_snoc: "readUintBE (bs @ [b]) = readUintBE bs * 256 + unat b"
  by (simp add: readUintBE_def)

lemma readUintBE_putint: "readUintBE (putint n) = n"
proof (induction n rule: putint.induct)
  case (1 n)
  show ?case
  proof (cases "n = 0")
    case True
    then show ?thesis by (simp add: putint.simps readUintBE_def)
  next
    case False
    have "unat (of_nat (n mod 256) :: byte) = n mod 256"
      by (simp add: unat_of_nat)
    with False 1 show ?thesis
      by (subst putint.simps) (simp add: readUintBE_snoc)
  qed
qed

lemma length_putint: "n < 256 ^ k \<Longrightarrow> length (putint n) \<le> k"
proof (induction k arbitrary: n)
  case 0
  then show ?case by (simp add: putint.simps)
next
  case (Suc k)
  show ?case
  proof (cases "n = 0")
    case True
    then show ?thesis by (simp add: putint.simps)
  next
    case False
    from Suc.prems have "n div 256 < 256 ^ k" by (simp add: less_mult_imp_div_less)
    from Suc.IH [OF this] False show ?thesis
      by (subst putint.simps) simp
  qed
qed

lemma putint_nonempty: "n \<noteq> 0 \<Longrightarrow> putint n \<noteq> []"
  using putint.simps [of n] by simp

lemma byte_of_nat_nonzero: "n < 256 \<Longrightarrow> n \<noteq> 0 \<Longrightarrow> (of_nat n :: byte) \<noteq> 0"
  by (simp add: word_of_nat_eq_0_iff nat_dvd_not_less)

lemma hd_putint: "n \<noteq> 0 \<Longrightarrow> hd (putint n) \<noteq> 0"
proof (induction n rule: putint.induct)
  case (1 n)
  show ?case
  proof (cases "n div 256 = 0")
    case True
    then have lt: "n < 256" by (simp add: div_eq_0_iff)
    have e: "putint (n div 256) = []" using True putint.simps [of "n div 256"] by simp
    have "putint n = [of_nat n]"
      using putint.simps [of n] 1(2) e lt by simp
    then show ?thesis using byte_of_nat_nonzero [OF lt 1(2)] by simp
  next
    case False
    with 1 have "hd (putint (n div 256)) \<noteq> 0" by simp
    moreover have "putint (n div 256) \<noteq> []" using False by (rule putint_nonempty)
    ultimately show ?thesis using 1(2) putint.simps [of n] by simp
  qed
qed

lemma putint_single: "n \<noteq> 0 \<Longrightarrow> length (putint n) = 1 \<Longrightarrow> putint n = [of_nat n] \<and> n < 256"
proof -
  assume n: "n \<noteq> 0" and l: "length (putint n) = 1"
  have p: "putint n = putint (n div 256) @ [of_nat (n mod 256)]"
    using putint.simps [of n] n by simp
  with l have "putint (n div 256) = []" by simp
  then have "n div 256 = 0" using putint_nonempty by blast
  then have "n < 256" by (simp add: div_eq_0_iff)
  with p \<open>putint (n div 256) = []\<close> show ?thesis by simp
qed

lemma be4_nat:
  fixes n :: nat
  assumes "n < 2 ^ 32"
  shows "16777216 * (n div 16777216 mod 256) + 65536 * (n div 65536 mod 256)
           + (n div 256 mod 256) * 256 + n mod 256 = n"
proof -
  define q1 where "q1 = n div 256"
  define q2 where "q2 = n div 65536"
  define q3 where "q3 = n div 16777216"
  define r0 where "r0 = n mod 256"
  define r1 where "r1 = q1 mod 256"
  define r2 where "r2 = q2 mod 256"
  define r3 where "r3 = q3 mod 256"
  have a: "n = q1 * 256 + r0" by (simp add: q1_def r0_def)
  have "q2 = q1 div 256" by (simp add: q1_def q2_def div_mult2_eq)
  then have b: "q1 = q2 * 256 + r1" by (simp add: r1_def)
  have "q3 = q2 div 256" by (simp add: q2_def q3_def div_mult2_eq)
  then have c: "q2 = q3 * 256 + r2" by (simp add: r2_def)
  have "q3 < 256" using assms by (simp add: q3_def less_mult_imp_div_less)
  then have d: "r3 = q3" by (simp add: r3_def)
  have "16777216 * r3 + 65536 * r2 + r1 * 256 + r0 = n"
    using a b c d by linarith
  then show ?thesis
    unfolding q1_def q2_def q3_def r0_def r1_def r2_def r3_def .
qed

lemma checksum_roundtrip: "of_nat (readUintBE (checksumToBytes c)) = c"
proof -
  have "unat c < 2 ^ 32" using unsigned_less [of c] by simp
  then have "readUintBE (checksumToBytes c) = unat c"
    using be4_nat [of "unat c"]
    by (simp add: readUintBE_def checksumToBytes_def unsigned_ucast_eq take_bit_eq_mod
          unat_drop_bit_eq drop_bit_eq_div [where 'a = nat])
  then show ?thesis by simp
qed

lemma byte_header:
  fixes b k :: nat
  assumes "b + k < 256"
  shows "unat (of_nat (b + k) :: byte) = b + k"
  using assms by (simp add: unat_of_nat del: of_nat_add)

lemma length_checksumToBytes: "length (checksumToBytes c) = 4"
  by (simp add: checksumToBytes_def)

lemma decodeChecksum_encoded:
  "decodeChecksum ((0x84 # checksumToBytes c) @ rest) = Inr (c, rest)"
  by (simp add: decodeChecksum_def length_checksumToBytes checksum_roundtrip)

lemma length_putint_u64: "length (putint (unat (i :: u64))) \<le> 8"
proof -
  have "unat i < 256 ^ 8" using unsigned_less [of i] by simp
  then show ?thesis by (rule length_putint)
qed

lemma length_encodeUint: "0 < length (encodeUint i) \<and> length (encodeUint i) \<le> 9"
  using length_putint_u64 [of i] by (simp add: encodeUint_def Let_def)

lemma ucast_byte_small:
  fixes i :: u64
  assumes "i < 128"
  shows "unat (ucast i :: byte) = unat i" and "ucast (ucast i :: byte) = i"
proof -
  have lt: "unat i < 128" using assms by (simp add: word_less_nat_alt)
  then show u: "unat (ucast i :: byte) = unat i"
    by (simp add: unsigned_ucast_eq take_bit_eq_mod)
  have "unat (ucast (ucast i :: byte) :: u64) = unat i"
    using u by (simp add: unsigned_ucast_eq take_bit_eq_mod unat_mod_distrib)
  then show "ucast (ucast i :: byte) = i"
    by (simp add: word_unat_eq_iff)
qed

lemma decodeUint_encoded: "decodeUint (encodeUint i @ rest) = Inr (i, rest)"
proof (cases "i = 0")
  case True
  then show ?thesis
    by (simp add: decodeUint_def encodeUint_def readUintBE_def)
next
  case nz: False
  show ?thesis
  proof (cases "i < 128")
    case True
    have "unat (ucast i :: byte) < 128"
      using True ucast_byte_small(1) [OF True] by (simp add: word_less_nat_alt)
    then have b: "(ucast i :: byte) < 0x80" by (simp add: word_less_nat_alt)
    have "unat (ucast i :: byte) \<noteq> 0"
      using nz ucast_byte_small(1) [OF True] by (simp add: unat_eq_0)
    then have "(ucast i :: byte) \<noteq> 0" by (simp add: unat_eq_0)
    with b nz True show ?thesis
      by (simp add: decodeUint_def encodeUint_def ucast_byte_small(2) [OF True])
  next
    case False
    define bs where "bs = putint (unat i)"
    define L where "L = length bs"
    have ge: "128 \<le> unat i" using False by (simp add: word_less_nat_alt not_less)
    then have n0: "unat i \<noteq> 0" by simp
    have L8: "L \<le> 8" unfolding L_def bs_def by (rule length_putint_u64)
    have ne: "bs \<noteq> []" unfolding bs_def using n0 by (rule putint_nonempty)
    then have L1: "0 < L" by (simp add: L_def)
    have hd0: "hd bs \<noteq> 0" unfolding bs_def using n0 by (rule hd_putint)
    define b :: byte where "b = of_nat (0x80 + L)"
    have hb: "unat b = 0x80 + L"
      unfolding b_def using L8 by (intro byte_header) simp
    have h1: "\<not> b < 0x80"
      by (simp only: word_less_nat_alt hb) simp
    have h2: "b < 0xB8"
      using L8 by (simp only: word_less_nat_alt hb) simp
    have canon: "\<not> (L = 1 \<and> hd (bs @ rest) < 0x80)"
    proof
      assume a: "L = 1 \<and> hd (bs @ rest) < 0x80"
      then have "length (putint (unat i)) = 1" by (simp add: L_def bs_def)
      from putint_single [OF n0 this] have s: "bs = [of_nat (unat i)]" and lt: "unat i < 256"
        by (simp_all add: bs_def)
      have "unat (of_nat (unat i) :: byte) = unat i"
        using lt by (simp add: unsigned_ucast_eq take_bit_eq_mod)
      with ge have "\<not> (of_nat (unat i) :: byte) < 0x80" by (simp add: word_less_nat_alt)
      with a s show False by simp
    qed
    have r: "readItem (b # bs @ rest) = Inr (StringItem bs, rest)"
      using h1 h2 canon by (auto simp: hb Let_def L_def)
    have e: "encodeUint i = b # bs"
      using nz False by (simp add: encodeUint_def Let_def bs_def L_def b_def)
    have v: "(of_nat (readUintBE bs) :: u64) = i"
      by (simp add: bs_def readUintBE_putint)
    show ?thesis
      using r L8 ne hd0 v by (simp add: e decodeUint_def L_def)
  qed
qed

text \<open>
  C9. Decoding the encoding of a fork identifier gives the identifier back, for every
  identifier; the identifier with checksum 0 and next 0 encodes to
  \<open>c6 84 00 00 00 00 80\<close>, and the one with checksum \<open>0xdeadbeef\<close> and next
  \<open>0xBADDCAFE\<close> to \<open>ca 84 de ad be ef 84 ba dd ca fe\<close>.
\<close>

theorem forkID_encoding_round_trip:
  "DecodeBytes (EncodeToBytes i) = Inr i
   \<and> EncodeToBytes \<lparr>Hash = 0, Next = 0\<rparr> = [0xc6, 0x84, 0, 0, 0, 0, 0x80]
   \<and> EncodeToBytes \<lparr>Hash = 0xdeadbeef, Next = 0xBADDCAFE\<rparr>
        = [0xca, 0x84, 0xde, 0xad, 0xbe, 0xef, 0x84, 0xba, 0xdd, 0xca, 0xfe]"
proof (intro conjI)

  define payload where "payload = (0x84 # checksumToBytes (Hash i)) @ encodeUint (Next i)"
  define L where "L = length payload"
  have L: "L \<le> 14" and ne: "encodeUint (Next i) \<noteq> []"
    using length_encodeUint [of "Next i"]
    by (auto simp: L_def payload_def length_checksumToBytes)
  define b :: byte where "b = of_nat (0xC0 + L)"
  have hb: "unat b = 0xC0 + L"
    unfolding b_def using L by (intro byte_header) simp
  have h: "\<not> b < 0x80" "\<not> b < 0xB8" "\<not> b < 0xC0" "b < 0xF8"
    using L by (simp_all only: word_less_nat_alt hb) simp_all
  have r: "readItem (b # payload) = Inr (ListItem payload, [])"
    using h by (simp add: hb Let_def) (simp add: L_def)
  have c: "decodeChecksum payload = Inr (Hash i, encodeUint (Next i))"
    unfolding payload_def by (rule decodeChecksum_encoded)
  have u: "decodeUint (encodeUint (Next i)) = Inr (Next i, [])"
    using decodeUint_encoded [of "Next i" "[]"] by simp
  have "EncodeToBytes i = b # payload"
    by (simp add: EncodeToBytes_def Let_def payload_def L_def b_def)
  then show "DecodeBytes (EncodeToBytes i) = Inr i"
    using r c u ne by (simp add: DecodeBytes_def)
next
  show "EncodeToBytes \<lparr>Hash = 0, Next = 0\<rparr> = [0xc6, 0x84, 0, 0, 0, 0, 0x80]"
    by (simp add: EncodeToBytes_def encodeUint_def checksumToBytes_def)
next
  show "EncodeToBytes \<lparr>Hash = 0xdeadbeef, Next = 0xBADDCAFE\<rparr>
        = [0xca, 0x84, 0xde, 0xad, 0xbe, 0xef, 0x84, 0xba, 0xdd, 0xca, 0xfe]"
    by (simp add: EncodeToBytes_def encodeUint_def checksumToBytes_def putint_numeral putint_0
          drop_bit_eq_div)
qed

theorem forkID_encoding_round_trip_witness:
  "DecodeBytes [0xca, 0x84, 0xde, 0xad, 0xbe, 0xef, 0x84, 0xba, 0xdd, 0xca, 0xfe]
     = Inr \<lparr>Hash = 0xdeadbeef, Next = 0xBADDCAFE\<rparr>"
proof -
  from forkID_encoding_round_trip [of "\<lparr>Hash = 0xdeadbeef, Next = 0xBADDCAFE\<rparr>"]
  have d: "DecodeBytes (EncodeToBytes \<lparr>Hash = 0xdeadbeef, Next = 0xBADDCAFE\<rparr>)
             = Inr \<lparr>Hash = 0xdeadbeef, Next = 0xBADDCAFE\<rparr>"
    and e: "EncodeToBytes \<lparr>Hash = 0xdeadbeef, Next = 0xBADDCAFE\<rparr>
             = [0xca, 0x84, 0xde, 0xad, 0xbe, 0xef, 0x84, 0xba, 0xdd, 0xca, 0xfe]"
    by blast+
  from d show ?thesis unfolding e .
qed

section \<open>Properties of the genesis initializer\<close>

lemmas ex_genesis_defs = ex_env_def ex_genesis_def ex_db_def ex_is_empty_def
  GenesisToBlock_def gaDeriveHash_def gaFlush_def genesisHeader_def isEIP4895_def isCancun_def
  NewMemoryDatabase_def ReadCanonicalHash_def ReadHeader_def WriteGenesisStateSpec_def

lemma ex_block_hash:
  "HeaderHash ex_env (Some (genesisHeader ex_env (ex_genesis c 0 x) 7)) = 1"
  by (simp add: ex_env_def ex_genesis_def genesisHeader_def ex_hash_def)

lemma GenesisToBlock_result:
  assumes "GenesisToBlock e g dbo = Inr (block, db1)"
  shows "\<exists>blob. MarshalAlloc e (gAlloc g) = Some blob
               \<and> StateRoot e (gAlloc g) = Some (Root (blockHeader block))
               \<and> genesisStateSpec db1 (Root (blockHeader block)) = Some blob"
    and "Number (blockHeader block) = gNumber g"
    and "Extra (blockHeader block) = gExtraData g"
proof -
  from assms obtain sroot blob where
    r: "StateRoot e (gAlloc g) = Some sroot" and m: "MarshalAlloc e (gAlloc g) = Some blob"
    and b: "block = \<lparr>blockHeader = genesisHeader e g sroot,
                      blockWithdrawals = (if isEIP4895 g then Some [] else None)\<rparr>"
    and d: "db1 = WriteGenesisStateSpec
                   (if sroot \<noteq> EmptyRootHash e
                    then (case dbo of None \<Rightarrow> NewMemoryDatabase | Some d \<Rightarrow> d)
                           \<lparr>trieNodes := insert sroot (trieNodes (case dbo of None \<Rightarrow> NewMemoryDatabase | Some d \<Rightarrow> d))\<rparr>
                    else (case dbo of None \<Rightarrow> NewMemoryDatabase | Some d \<Rightarrow> d))
                   sroot blob"
    unfolding GenesisToBlock_def gaDeriveHash_def gaFlush_def Let_def
    by (cases "StateRoot e (gAlloc g)"; cases "MarshalAlloc e (gAlloc g)") auto
  show "\<exists>blob. MarshalAlloc e (gAlloc g) = Some blob
               \<and> StateRoot e (gAlloc g) = Some (Root (blockHeader block))
               \<and> genesisStateSpec db1 (Root (blockHeader block)) = Some blob"
    using r m by (simp add: b d genesisHeader_def WriteGenesisStateSpec_def)
  show "Number (blockHeader block) = gNumber g"
    by (simp add: b genesisHeader_def)
  show "Extra (blockHeader block) = gExtraData g"
    by (simp add: b genesisHeader_def)
qed

lemmas rawdb_writes = WriteGenesisStateSpec_def WriteTd_def WriteBlock_def WriteReceipts_def
  WriteCanonicalHash_def WriteHeadBlockHash_def WriteHeadFastBlockHash_def WriteHeadHeaderHash_def
  WriteChainConfig_def

text \<open>
  C7 (as amended). For every genesis specification with a non-empty configuration that
  is supplied when a genesis hash is stored and its header can be read: if the block
  built from the specification has a hash other than the stored one,
  \<open>SetupGenesisBlockWithOverride\<close> returns the specification's configuration, the
  computed hash and the mismatch error carrying the stored and the computed hash, and
  leaves the database as it was. Nothing is assumed about the state of the stored
  genesis, so this covers the state being missing and being present. Every supplied
  specification with an empty configuration fails with the no-configuration error
  instead, whatever is stored, and the database is left as it was.
\<close>

theorem Setup_genesis_mismatch:
  "(\<not> IsEmpty e (gConfig g)
      \<and> ReadCanonicalHash db 0 = stored \<and> stored \<noteq> 0
      \<and> ReadHeader db stored 0 = Some hdr
      \<and> GenesisToBlock e g None = Inr (blk, mem)
      \<and> HeaderHash e (Some (blockHeader blk)) \<noteq> stored
    \<longrightarrow> SetupGenesisBlockWithOverride e db (Some g) overrides =
           Inr ((gConfig g, HeaderHash e (Some (blockHeader blk)),
                 Some (GenesisMismatchError stored (HeaderHash e (Some (blockHeader blk))))), db))
   \<and> (IsEmpty e (gConfig g)
    \<longrightarrow> SetupGenesisBlockWithOverride e db (Some g) overrides =
           Inr ((Some (AllEthashProtocolChanges e), 0, Some ErrGenesisNoConfig), db))"
  by (simp add: SetupGenesisBlockWithOverride_def Let_def)

theorem Setup_genesis_mismatch_witness:
  "\<not> HasLegacyTrieNode ex_db (Root (ex_header 0 0 9))
   \<and> SetupGenesisBlockWithOverride ex_env ex_db (Some (ex_genesis (Some (ex_config None)) 0 [])) None
       = Inr ((Some (ex_config None), 1, Some (GenesisMismatchError 77 1)), ex_db)
   \<and> HasLegacyTrieNode (ex_db\<lparr>trieNodes := {0}\<rparr>) (Root (ex_header 0 0 9))
   \<and> SetupGenesisBlockWithOverride ex_env (ex_db\<lparr>trieNodes := {0}\<rparr>)
         (Some (ex_genesis (Some (ex_config None)) 0 [])) None
       = Inr ((Some (ex_config None), 1, Some (GenesisMismatchError 77 1)), ex_db\<lparr>trieNodes := {0}\<rparr>)
   \<and> SetupGenesisBlockWithOverride ex_env NewMemoryDatabase (Some (ex_genesis None 0 [])) None
       = Inr ((Some (ex_config None), 0, Some ErrGenesisNoConfig), NewMemoryDatabase)"
proof -
  let ?g = "ex_genesis (Some (ex_config None)) 0 []"
  let ?blk = "\<lparr>blockHeader = genesisHeader ex_env ?g 7, blockWithdrawals = None\<rparr>"
  let ?db = "ex_db\<lparr>trieNodes := {0}\<rparr>"
  have g: "GenesisToBlock ex_env ?g None
             = Inr (?blk, WriteGenesisStateSpec (NewMemoryDatabase\<lparr>trieNodes := {7}\<rparr>) 7 [])"
    by (simp add: GenesisToBlock_def gaDeriveHash_def gaFlush_def isEIP4895_def ex_env_def
          ex_genesis_def ex_config_def NewMemoryDatabase_def)
  have p1: "\<not> IsEmpty ex_env (gConfig ?g)"
    by (simp add: ex_env_def ex_genesis_def ex_is_empty_def)
  have p2: "ReadCanonicalHash ex_db 0 = 77" "ReadCanonicalHash ?db 0 = 77"
    by (simp_all add: ex_db_def ReadCanonicalHash_def)
  have p3: "(77 :: hash) \<noteq> 0"
    by simp
  have p4: "ReadHeader ex_db 77 0 = Some (ex_header 0 0 9)" "ReadHeader ?db 77 0 = Some (ex_header 0 0 9)"
    by (simp_all add: ex_db_def ReadHeader_def)
  have p5: "HeaderHash ex_env (Some (blockHeader ?blk)) \<noteq> 77"
    by (simp add: ex_block_hash)
  have s: "\<not> HasLegacyTrieNode ex_db (Root (ex_header 0 0 9))"
          "HasLegacyTrieNode ?db (Root (ex_header 0 0 9))"
    by (simp_all add: HasLegacyTrieNode_def ex_db_def NewMemoryDatabase_def ex_header_def)
  have a: "SetupGenesisBlockWithOverride ex_env ex_db (Some ?g) None
            = Inr ((Some (ex_config None), 1, Some (GenesisMismatchError 77 1)), ex_db)"
    using Setup_genesis_mismatch [of ex_env ?g ex_db 77 "ex_header 0 0 9" ?blk _ None] p1 p2(1) p3 p4(1) g p5
    by (simp add: ex_block_hash) (simp add: ex_genesis_def)
  have b: "SetupGenesisBlockWithOverride ex_env ?db (Some ?g) None
            = Inr ((Some (ex_config None), 1, Some (GenesisMismatchError 77 1)), ?db)"
    using Setup_genesis_mismatch [of ex_env ?g ?db 77 "ex_header 0 0 9" ?blk _ None] p1 p2(2) p3 p4(2) g p5
    by (simp add: ex_block_hash) (simp add: ex_genesis_def)
  have c: "SetupGenesisBlockWithOverride ex_env NewMemoryDatabase (Some (ex_genesis None 0 [])) None
            = Inr ((Some (ex_config None), 0, Some ErrGenesisNoConfig), NewMemoryDatabase)"
    using Setup_genesis_mismatch [of ex_env "ex_genesis None 0 []" NewMemoryDatabase _ _ _ _ None]
    by (simp add: ex_env_def ex_genesis_def ex_is_empty_def)
  from s a b c show ?thesis by blast
qed

text \<open>
  C7 as stated fails for a specification without configuration: the first test of the
  function returns \<open>ErrGenesisNoConfig\<close>, although a genesis with hash 77 is stored
  and the block of the specification has hash 1.
\<close>

theorem Setup_no_config_counterexample:
  "ReadCanonicalHash ex_db 0 = 77
   \<and> ReadHeader ex_db 77 0 = Some (ex_header 0 0 9)
   \<and> GenesisToBlock ex_env (ex_genesis None 0 []) None
       = Inr (\<lparr>blockHeader = genesisHeader ex_env (ex_genesis None 0 []) 7, blockWithdrawals = None\<rparr>,
              WriteGenesisStateSpec (NewMemoryDatabase\<lparr>trieNodes := {7}\<rparr>) 7 [])
   \<and> HeaderHash ex_env (Some (genesisHeader ex_env (ex_genesis None 0 []) 7)) = 1
   \<and> SetupGenesisBlockWithOverride ex_env ex_db (Some (ex_genesis None 0 [])) None
       = Inr ((Some (AllEthashProtocolChanges ex_env), 0, Some ErrGenesisNoConfig), ex_db)"
proof -
  have a: "ReadCanonicalHash ex_db 0 = 77" "ReadHeader ex_db 77 0 = Some (ex_header 0 0 9)"
    by (simp_all add: ex_db_def ReadCanonicalHash_def ReadHeader_def)
  have b: "GenesisToBlock ex_env (ex_genesis None 0 []) None
       = Inr (\<lparr>blockHeader = genesisHeader ex_env (ex_genesis None 0 []) 7, blockWithdrawals = None\<rparr>,
              WriteGenesisStateSpec (NewMemoryDatabase\<lparr>trieNodes := {7}\<rparr>) 7 [])"
    by (simp add: GenesisToBlock_def gaDeriveHash_def gaFlush_def isEIP4895_def ex_env_def
          ex_genesis_def NewMemoryDatabase_def)
  have c: "SetupGenesisBlockWithOverride ex_env ex_db (Some (ex_genesis None 0 [])) None
       = Inr ((Some (AllEthashProtocolChanges ex_env), 0, Some ErrGenesisNoConfig), ex_db)"
    by (simp add: SetupGenesisBlockWithOverride_def ex_env_def ex_genesis_def ex_is_empty_def)
  from a b c ex_block_hash [of None "[]"] show ?thesis by blast
qed

text \<open>
  C8. Let \<open>GenesisToBlock\<close> have built the block. If its height is not zero,
  \<open>CommitGenesis\<close> fails with the non-zero-genesis error; if the height is zero, the
  engine is clique and the extra-data is empty, it fails with the missing-signers
  error (the height is tested first); otherwise it succeeds, and the database then
  holds the allocation blob under the state root and under the block hash, the total
  difficulty, the block (header and body), an empty receipt list, the canonical hash
  of number 0 and the three head pointers, all naming the block, and the configuration
  under the block hash.
\<close>

theorem CommitGenesis_checks_and_writes:
  assumes "GenesisToBlock e g (Some db) = Inr (block, db1)"
  shows "(Number (blockHeader block) \<noteq> 0 \<longrightarrow> CommitGenesis e g db = Inr (Inl ErrNonZeroGenesis, db1))
       \<and> (Number (blockHeader block) = 0
            \<and> IsClique (GetConsensusEngineType (case gConfig g of None \<Rightarrow> AllEthashProtocolChanges e | Some c \<Rightarrow> c))
            \<and> Extra (blockHeader block) = []
          \<longrightarrow> CommitGenesis e g db = Inr (Inl ErrCliqueNoSigners, db1))
       \<and> (Number (blockHeader block) = 0
            \<and> \<not> (IsClique (GetConsensusEngineType (case gConfig g of None \<Rightarrow> AllEthashProtocolChanges e | Some c \<Rightarrow> c))
                  \<and> Extra (blockHeader block) = [])
          \<longrightarrow> (\<exists>db' blob. CommitGenesis e g db = Inr (Inr block, db')
                \<and> MarshalAlloc e (gAlloc g) = Some blob
                \<and> genesisStateSpec db' (Root (blockHeader block)) = Some blob
                \<and> genesisStateSpec db' (HeaderHash e (Some (blockHeader block))) = Some blob
                \<and> totalDifficulty db' (HeaderHash e (Some (blockHeader block)), 0) = Some (Difficulty (blockHeader block))
                \<and> headers db' (HeaderHash e (Some (blockHeader block)), 0) = Some (blockHeader block)
                \<and> bodies db' (HeaderHash e (Some (blockHeader block)), 0) = Some (blockWithdrawals block)
                \<and> receipts db' (HeaderHash e (Some (blockHeader block)), 0) = Some []
                \<and> canonicalHash db' 0 = Some (HeaderHash e (Some (blockHeader block)))
                \<and> headBlockHash db' = Some (HeaderHash e (Some (blockHeader block)))
                \<and> headFastBlockHash db' = Some (HeaderHash e (Some (blockHeader block)))
                \<and> headHeaderHash db' = Some (HeaderHash e (Some (blockHeader block)))
                \<and> chainConfigs db' (HeaderHash e (Some (blockHeader block)))
                    = Some (case gConfig g of None \<Rightarrow> AllEthashProtocolChanges e | Some c \<Rightarrow> c)))"
proof -
  from GenesisToBlock_result(1) [OF assms] obtain blob where
    blob: "MarshalAlloc e (gAlloc g) = Some blob"
    and spec: "genesisStateSpec db1 (Root (blockHeader block)) = Some blob"
    by blast
  show ?thesis
    using assms blob spec
    by (simp add: CommitGenesis_def gaWrite_def Let_def rawdb_writes)
qed

theorem CommitGenesis_checks_and_writes_witness:
  "CommitGenesis ex_env (ex_genesis (Some ((ex_config None)\<lparr>GetConsensusEngineType := ConsensusEngineT_Clique\<rparr>)) 0 []) NewMemoryDatabase
     = Inr (Inl ErrCliqueNoSigners, WriteGenesisStateSpec (NewMemoryDatabase\<lparr>trieNodes := {7}\<rparr>) 7 [])
   \<and> CommitGenesis ex_env (ex_genesis (Some (ex_config None)) 5 []) NewMemoryDatabase
     = Inr (Inl ErrNonZeroGenesis, WriteGenesisStateSpec (NewMemoryDatabase\<lparr>trieNodes := {7}\<rparr>) 7 [])
   \<and> (\<exists>db'. CommitGenesis ex_env (ex_genesis (Some (ex_config None)) 0 []) NewMemoryDatabase
            = Inr (Inr \<lparr>blockHeader = genesisHeader ex_env (ex_genesis (Some (ex_config None)) 0 []) 7,
                        blockWithdrawals = None\<rparr>, db')
          \<and> genesisStateSpec db' 7 = Some []
          \<and> genesisStateSpec db' 1 = Some []
          \<and> totalDifficulty db' (1, 0) = Some 131072
          \<and> receipts db' (1, 0) = Some []
          \<and> canonicalHash db' 0 = Some 1
          \<and> headBlockHash db' = Some 1
          \<and> headFastBlockHash db' = Some 1
          \<and> headHeaderHash db' = Some 1
          \<and> chainConfigs db' 1 = Some (ex_config None))"
proof -
  let ?c = "(ex_config None)\<lparr>GetConsensusEngineType := ConsensusEngineT_Clique\<rparr>"
  let ?g1 = "ex_genesis (Some ?c) 0 []"
  let ?g2 = "ex_genesis (Some (ex_config None)) 5 []"
  let ?g3 = "ex_genesis (Some (ex_config None)) 0 []"
  let ?db1 = "WriteGenesisStateSpec (NewMemoryDatabase\<lparr>trieNodes := {7}\<rparr>) 7 []"
  have g1: "GenesisToBlock ex_env ?g1 (Some NewMemoryDatabase)
             = Inr (\<lparr>blockHeader = genesisHeader ex_env ?g1 7, blockWithdrawals = None\<rparr>, ?db1)"
    by (simp add: GenesisToBlock_def gaDeriveHash_def gaFlush_def isEIP4895_def ex_env_def
          ex_genesis_def ex_config_def NewMemoryDatabase_def)
  have g2: "GenesisToBlock ex_env ?g2 (Some NewMemoryDatabase)
             = Inr (\<lparr>blockHeader = genesisHeader ex_env ?g2 7, blockWithdrawals = None\<rparr>, ?db1)"
    by (simp add: GenesisToBlock_def gaDeriveHash_def gaFlush_def isEIP4895_def ex_env_def
          ex_genesis_def ex_config_def NewMemoryDatabase_def)
  have g3: "GenesisToBlock ex_env ?g3 (Some NewMemoryDatabase)
             = Inr (\<lparr>blockHeader = genesisHeader ex_env ?g3 7, blockWithdrawals = None\<rparr>, ?db1)"
    by (simp add: GenesisToBlock_def gaDeriveHash_def gaFlush_def isEIP4895_def ex_env_def
          ex_genesis_def ex_config_def NewMemoryDatabase_def)
  have h: "HeaderHash ex_env (Some (genesisHeader ex_env ?g3 7)) = 1"
    by (rule ex_block_hash)
  have v: "Root (genesisHeader ex_env ?g3 7) = 7" "Number (genesisHeader ex_env ?g3 7) = 0"
     "Extra (genesisHeader ex_env ?g3 7) = []" "Difficulty (genesisHeader ex_env ?g3 7) = 131072"
     "gConfig ?g3 = Some (ex_config None)" "gAlloc ?g3 = []" "MarshalAlloc ex_env [] = Some []"
     "\<not> IsClique (GetConsensusEngineType (ex_config None))"
    by (simp_all add: genesisHeader_def ex_genesis_def ex_env_def ex_config_def IsClique_def)
  have a: "CommitGenesis ex_env ?g1 NewMemoryDatabase = Inr (Inl ErrCliqueNoSigners, ?db1)"
    using CommitGenesis_checks_and_writes [OF g1]
    by (simp add: genesisHeader_def ex_genesis_def IsClique_def ex_env_def)
  have b: "CommitGenesis ex_env ?g2 NewMemoryDatabase = Inr (Inl ErrNonZeroGenesis, ?db1)"
    using CommitGenesis_checks_and_writes [OF g2]
    by (simp add: genesisHeader_def ex_genesis_def IsClique_def ex_env_def)
  have c: "\<exists>db'. CommitGenesis ex_env ?g3 NewMemoryDatabase
            = Inr (Inr \<lparr>blockHeader = genesisHeader ex_env ?g3 7, blockWithdrawals = None\<rparr>, db')
          \<and> genesisStateSpec db' 7 = Some []
          \<and> genesisStateSpec db' 1 = Some []
          \<and> totalDifficulty db' (1, 0) = Some 131072
          \<and> receipts db' (1, 0) = Some []
          \<and> canonicalHash db' 0 = Some 1
          \<and> headBlockHash db' = Some 1
          \<and> headFastBlockHash db' = Some 1
          \<and> headHeaderHash db' = Some 1
          \<and> chainConfigs db' 1 = Some (ex_config None)"
    using CommitGenesis_checks_and_writes [OF g3]
    by (simp add: h v) blast
  from a b c show ?thesis by blast
qed

end
